theory Spec2Isabelle
  imports Main "HOL-Library.Word"
begin

section \<open>Data model\<close>

text \<open>
  The resource documents are the Kubernetes API structs the controller reads and writes.
  Only the fields that the operations modelled below read or write are kept. A Go pointer
  field that may be nil is an \<open>option\<close>, a Go map is a partial function, \<^verbatim>\<open>int32\<close> is a
  32-bit word.
\<close>

type_synonym labels_Set = "string \<rightharpoonup> string"

text \<open>\<^verbatim>\<open>api.ObjectReference\<close> and \<^verbatim>\<open>api.SerializedReference\<close>: the owner recorded in a pod annotation.\<close>

record ObjectReference =
  Kind :: string
  UID :: string

record SerializedReference =
  Reference :: ObjectReference

text \<open>
  \<^verbatim>\<open>ResourceHeader\<close> of \<^verbatim>\<open>parse.go\<close>: \<^verbatim>\<open>TypeMeta\<close> and \<^verbatim>\<open>ObjectMeta\<close> inlined. Deployments and pods
  embed both, so they extend this record and share its field selectors.
\<close>

record ResourceHeader =
  Kind :: string
  Namespace :: string
  Name :: string
  UID :: string
  SelfLink :: string
  ResourceVersion :: string
  Annotations :: "string \<rightharpoonup> string"

datatype PodPhase = PodPending | PodRunning | PodSucceeded | PodFailed | PodUnknown

record PodStatus =
  Phase :: PodPhase

record Pod = ResourceHeader +
  Status :: PodStatus

record LabelSelector =
  MatchLabels :: labels_Set

record DeploymentSpec =
  Replicas :: "32 word option"
  Selector :: "LabelSelector option"

record DeploymentStatus =
  UpdatedReplicas :: "32 word"

record Deployment = ResourceHeader +
  Spec :: DeploymentSpec
  Status :: DeploymentStatus

section \<open>Errors\<close>

text \<open>
  The arguments of the two \<^verbatim>\<open>trace.CompareFailed\<close> format strings of \<^verbatim>\<open>Status\<close>; the text
  itself is not rendered.
\<close>

datatype mismatch =
    ExpectedReplicas "32 word" "32 word"
  | PodNotRunning string PodPhase

text \<open>
  An error value records how the code built it. \<open>StatusError\<close> and \<open>DecodeError\<close> are
  the raw errors of the two external collaborators (the API client, with its HTTP status,
  and the YAML/JSON decoder). \<open>BadParameter\<close>, \<open>NotFound\<close>, \<open>AlreadyExists\<close> and
  \<open>CompareFailed\<close> are the typed errors of the \<^verbatim>\<open>trace\<close> package. \<open>Wrap\<close> records one
  application of \<^verbatim>\<open>trace.Wrap\<close>, which attaches the call site to the error it is given.
  \<open>NilDereference\<close> stands for the runtime panic of a call through a nil client, and
  \<open>Cancelled\<close> for the cancellation error of the retry engine.
\<close>

datatype error =
    StatusError nat string
  | DecodeError string
  | BadParameter string
  | NotFound string
  | AlreadyExists string
  | CompareFailed mismatch
  | Wrap error
  | NilDereference
  | Cancelled

text \<open>\<^verbatim>\<open>trace.IsNotFound\<close> looks through the wrappers for a not-found error.\<close>

fun IsNotFound :: "error \<Rightarrow> bool" where
  "IsNotFound (NotFound m) = True"
| "IsNotFound (Wrap e) = IsNotFound e"
| "IsNotFound e = False"

section \<open>The remote client and the trace of calls\<close>

text \<open>
  The control plane is outside the program. Its state is a type parameter \<open>'w\<close>, and a
  client handle is the six operations the controller invokes, each a function of that
  state. Nothing is assumed about what they answer.
\<close>

record 'w Clientset =
  Deployments_Get :: "string \<Rightarrow> string \<Rightarrow> 'w \<Rightarrow> (error + Deployment) \<times> 'w"
  Deployments_Create :: "string \<Rightarrow> Deployment \<Rightarrow> 'w \<Rightarrow> (error + Deployment) \<times> 'w"
  Deployments_Update :: "string \<Rightarrow> Deployment \<Rightarrow> 'w \<Rightarrow> (error + Deployment) \<times> 'w"
  Deployments_Delete :: "string \<Rightarrow> string \<Rightarrow> 'w \<Rightarrow> error option \<times> 'w"
  Pods_List :: "string \<Rightarrow> labels_Set \<Rightarrow> 'w \<Rightarrow> (error + Pod list) \<times> 'w"
  Pods_Delete :: "string \<Rightarrow> string \<Rightarrow> 'w \<Rightarrow> error option \<times> 'w"

text \<open>A remote call as the controller issued it: the namespace first, then the argument.\<close>

datatype call =
    GetDeployment string string
  | CreateDeployment string Deployment
  | UpdateDeployment string Deployment
  | DeleteDeployment string string
  | ListPods string labels_Set
  | DeletePod string string

text \<open>
  A log line keeps the format string of the \<^verbatim>\<open>Infof\<close> call that wrote it (its arguments
  are not rendered); the one \<^verbatim>\<open>Warningf\<close> call prints the report of an error.
\<close>

datatype log_line = Infof string | Warningf error

record 'w state =
  world :: 'w
  calls :: "call list"
  logged :: "log_line list"

text \<open>Issuing a call appends it to the trace and lets the control plane answer.\<close>

definition invoke :: "call \<Rightarrow> ('w \<Rightarrow> 'a \<times> 'w) \<Rightarrow> 'w state \<Rightarrow> 'a \<times> 'w state" where
  "invoke k f s =
     (case f (world s) of (r, w') \<Rightarrow> (r, s\<lparr>world := w', calls := calls s @ [k]\<rparr>))"

definition logln :: "log_line \<Rightarrow> 'w state \<Rightarrow> 'w state" where
  "logln l s = s\<lparr>logged := logged s @ [l]\<rparr>"

text \<open>
  A context is consulted only between two attempts of the retry engine: \<open>Done ctx period w\<close>
  waits for the period and tells whether the context was cancelled (or its deadline passed)
  by then.
\<close>

record 'w Context =
  Done :: "int \<Rightarrow> 'w \<Rightarrow> bool \<times> 'w"

section \<open>What the package declares outside the two source files\<close>

text \<open>
  Modelled from the spec: the constants \<^verbatim>\<open>KindDeployment\<close>, \<^verbatim>\<open>AnnotationCreatedBy\<close>,
  \<^verbatim>\<open>DefaultRetryAttempts\<close> and \<^verbatim>\<open>DefaultRetryPeriod\<close> and the function \<^verbatim>\<open>convertErr\<close> are
  declared in files of the package other than \<^verbatim>\<open>deployment.go\<close> and \<^verbatim>\<open>parse.go\<close>. The spec
  calls them the Deployment kind, the well-known annotation key and the fixed default
  attempt budget and period, and gives no values, so they are parameters. The spec's
  \<^verbatim>\<open>get\<close> answers \<^verbatim>\<open>Resource | NotFoundError | Error\<close>: \<open>convertErr\<close> is the
  classification of a failed call's error, and a nil error stays nil. The YAML/JSON
  decoder is an external library; its result on a byte string is a parameter as well.
\<close>

record Env =
  KindDeployment :: string
  AnnotationCreatedBy :: string
  DefaultRetryAttempts :: int
  DefaultRetryPeriod :: int
  convertErr :: "error \<Rightarrow> error"
  Decode_SerializedReference :: "string \<Rightarrow> error + SerializedReference"
  Decode_Deployment :: "string \<Rightarrow> error + Deployment"

section \<open>parse.go\<close>

definition ParseSerializedReference :: "Env \<Rightarrow> string \<Rightarrow> error + SerializedReference" where
  "ParseSerializedReference env r =
     (case Decode_SerializedReference env r of
        Inl err \<Rightarrow> Inl (Wrap err)
      | Inr ref \<Rightarrow> Inr ref)"

text \<open>The reader is \<open>None\<close> when the Go value is nil.\<close>

definition ParseDeployment :: "Env \<Rightarrow> string option \<Rightarrow> error + Deployment" where
  "ParseDeployment env r =
     (case r of
        None \<Rightarrow> Inl (BadParameter ''missing reader'')
      | Some bytes \<Rightarrow>
          (case Decode_Deployment env bytes of
             Inl err \<Rightarrow> Inl (Wrap err)
           | Inr rc \<Rightarrow> Inr rc))"

section \<open>deployment.go\<close>

record 'w DeploymentConfig =
  Reader :: "string option"
  Deployment :: "Deployment option"
  Client :: "'w Clientset option"

definition CheckAndSetDefaults :: "('w, 'z) DeploymentConfig_scheme \<Rightarrow> error option" where
  "CheckAndSetDefaults c =
     (if Reader c = None \<and> Deployment c = None
      then Some (BadParameter ''missing parameter Reader or Deployment'')
      else if Client c = None
      then Some (BadParameter ''missing parameter Client'')
      else None)"

text \<open>\<^verbatim>\<open>DeploymentControl\<close> embeds the configuration and owns a copy of the document.\<close>

record 'w DeploymentControl = "'w DeploymentConfig" +
  deployment :: Deployment

text \<open>
  The pre-parsed document is reached through a pointer, so the assignment to \<^verbatim>\<open>rc.Kind\<close>
  is seen through the configuration kept in the controller too.
\<close>

definition NewDeploymentControl :: "Env \<Rightarrow> 'w DeploymentConfig \<Rightarrow> error + 'w DeploymentControl" where
  "NewDeploymentControl env config =
     (case CheckAndSetDefaults config of
        Some err \<Rightarrow> Inl (Wrap err)
      | None \<Rightarrow>
          (case Deployment config of
             Some rc \<Rightarrow>
               (let rc' = rc\<lparr>ResourceHeader.Kind := KindDeployment env\<rparr>
                in Inr (DeploymentConfig.extend (config\<lparr>Deployment := Some rc'\<rparr>)
                          (DeploymentControl.fields rc')))
           | None \<Rightarrow>
               (case ParseDeployment env (Reader config) of
                  Inl err \<Rightarrow> Inl (Wrap err)
                | Inr rc \<Rightarrow>
                    (let rc' = rc\<lparr>ResourceHeader.Kind := KindDeployment env\<rparr>
                     in Inr (DeploymentConfig.extend config (DeploymentControl.fields rc'))))))"

text \<open>
  The loop of \<^verbatim>\<open>collectPods\<close> over \<^verbatim>\<open>podList.Items\<close>, with \<^verbatim>\<open>currentPods\<close> as the
  accumulator: a pod with no annotation or with one that does not parse is passed over.
\<close>

fun collectPods_loop ::
  "Env \<Rightarrow> Deployment \<Rightarrow> Pod list \<Rightarrow> Pod list \<Rightarrow> 'w state \<Rightarrow> Pod list \<times> 'w state" where
  "collectPods_loop env currentDeployment currentPods [] s = (currentPods, s)"
| "collectPods_loop env currentDeployment currentPods (pod # items) s =
     (case Annotations pod (AnnotationCreatedBy env) of
        None \<Rightarrow> collectPods_loop env currentDeployment currentPods items s
      | Some createdBy \<Rightarrow>
          (case ParseSerializedReference env createdBy of
             Inl err \<Rightarrow>
               collectPods_loop env currentDeployment currentPods items (logln (Warningf err) s)
           | Inr ref \<Rightarrow>
               (let s1 = logln (Infof ''collectPods(%v, %v, %v)'') s in
                if ObjectReference.Kind (Reference ref) = KindDeployment env
                   \<and> ObjectReference.UID (Reference ref) = UID currentDeployment
                then collectPods_loop env currentDeployment (currentPods @ [pod]) items
                       (logln (Infof ''found pod created by this RC: %v'') s1)
                else collectPods_loop env currentDeployment currentPods items s1)))"

text \<open>
  The label set is filled from the controller's own document; the namespace and the UID
  come from the argument.
\<close>

definition selectorSet :: "Deployment \<Rightarrow> labels_Set" where
  "selectorSet d =
     (case Selector (Spec d) of
        None \<Rightarrow> Map.empty
      | Some sel \<Rightarrow> Map.empty ++ MatchLabels sel)"

definition collectPods ::
  "Env \<Rightarrow> 'w DeploymentControl \<Rightarrow> Deployment \<Rightarrow> 'w state \<Rightarrow> (error + Pod list) \<times> 'w state" where
  "collectPods env c currentDeployment s =
     (let labelSet = selectorSet (deployment c) in
      case Client c of
        None \<Rightarrow> (Inl NilDereference, s)
      | Some cl \<Rightarrow>
          (case invoke (ListPods (Namespace currentDeployment) labelSet)
                       (Pods_List cl (Namespace currentDeployment) labelSet) s of
             (Inl err, s1) \<Rightarrow> (Inl (Wrap err), s1)
           | (Inr podList, s1) \<Rightarrow>
               (case collectPods_loop env currentDeployment [] podList
                       (logln (Infof ''collectPods(%v) -> %v'') s1) of
                  (currentPods, s2) \<Rightarrow> (Inr currentPods, s2))))"

text \<open>The loop of \<^verbatim>\<open>Delete\<close> over the pods resolved before: it stops at the first error.\<close>

fun deletePods_loop ::
  "'w Clientset \<Rightarrow> string \<Rightarrow> Pod list \<Rightarrow> 'w state \<Rightarrow> error option \<times> 'w state" where
  "deletePods_loop cl ns [] s = (None, s)"
| "deletePods_loop cl ns (pod # rest) s =
     (case invoke (DeletePod ns (Name pod)) (Pods_Delete cl ns (Name pod))
             (logln (Infof ''deleting pod %v'') s) of
        (Some err, s1) \<Rightarrow> (Some (Wrap err), s1)
      | (None, s1) \<Rightarrow> deletePods_loop cl ns rest s1)"

definition Delete ::
  "Env \<Rightarrow> 'w DeploymentControl \<Rightarrow> 'w Context \<Rightarrow> bool \<Rightarrow> 'w state \<Rightarrow> error option \<times> 'w state" where
  "Delete env c ctx cascade s =
     (let s0 = logln (Infof ''Delete'') s;
          ns = Namespace (deployment c);
          name = Name (deployment c) in
      case Client c of
        None \<Rightarrow> (Some NilDereference, s0)
      | Some cl \<Rightarrow>
          (case invoke (GetDeployment ns name) (Deployments_Get cl ns name) s0 of
             (Inl err, s1) \<Rightarrow> (Some (Wrap err), s1)
           | (Inr currentDeployment, s1) \<Rightarrow>
               (case collectPods env c currentDeployment s1 of
                  (Inl err, s2) \<Rightarrow> (Some (Wrap err), s2)
                | (Inr currentPods, s2) \<Rightarrow>
                    (case invoke (DeleteDeployment ns name) (Deployments_Delete cl ns name)
                            (logln (Infof ''deleting'') s2) of
                       (Some err, s3) \<Rightarrow> (Some (Wrap err), s3)
                     | (None, s3) \<Rightarrow>
                         (let s4 = (if \<not> cascade
                                    then logln (Infof ''cascade not set, returning'') s3
                                    else s3);
                              s5 = logln (Infof ''deleting pods %v'') s4
                          in deletePods_loop cl ns currentPods s5)))))"

text \<open>
  \<^verbatim>\<open>Upsert\<close> assigns to the controller's own document, so the controller is returned with
  the result. A nil error of \<^verbatim>\<open>Create\<close> or \<^verbatim>\<open>Update\<close> stays nil through \<^verbatim>\<open>convertErr\<close>.
\<close>

definition errorOf :: "error + 'a \<Rightarrow> error option" where
  "errorOf r = (case r of Inl err \<Rightarrow> Some err | Inr v \<Rightarrow> None)"

definition Upsert ::
  "Env \<Rightarrow> 'w DeploymentControl \<Rightarrow> 'w Context \<Rightarrow> 'w state
     \<Rightarrow> error option \<times> 'w DeploymentControl \<times> 'w state" where
  "Upsert env c ctx s =
     (let s0 = logln (Infof ''Upsert'') s;
          ns = Namespace (deployment c) in
      case Client c of
        None \<Rightarrow> (Some NilDereference, c, s0)
      | Some cl \<Rightarrow>
          (let c1 = c\<lparr>deployment := (deployment c)\<lparr>UID := '''', SelfLink := '''',
                                                     ResourceVersion := ''''\<rparr>\<rparr>;
               name = Name (deployment c1) in
           case invoke (GetDeployment ns name) (Deployments_Get cl ns name) s0 of
             (Inl err0, s1) \<Rightarrow>
               (let err = convertErr env err0 in
                if \<not> IsNotFound err then (Some (Wrap err), c1, s1)
                else
                  (case invoke (CreateDeployment ns (deployment c1))
                          (Deployments_Create cl ns (deployment c1)) s1 of
                     (r, s2) \<Rightarrow> (map_option (convertErr env) (errorOf r), c1, s2)))
           | (Inr found, s1) \<Rightarrow>
               (case invoke (UpdateDeployment ns (deployment c1))
                       (Deployments_Update cl ns (deployment c1)) s1 of
                  (r, s2) \<Rightarrow> (map_option (convertErr env) (errorOf r), c1, s2))))"

text \<open>
  Modelled from the spec: \<^verbatim>\<open>retry\<close> is defined in a file of the package other than
  \<^verbatim>\<open>deployment.go\<close> and \<^verbatim>\<open>parse.go\<close>. The spec: it calls the action up to \<^verbatim>\<open>maxAttempts\<close>
  times; when the action returns no error it returns success at once; when the action
  returns an error on the last attempt it returns that error; otherwise it sleeps for the
  period and, if the context is cancelled before the next attempt, returns a cancellation
  error without invoking the action again. With no attempt to make, no action runs and no
  error arises.
\<close>

fun retry_loop ::
  "'w Context \<Rightarrow> nat \<Rightarrow> int \<Rightarrow> ('w state \<Rightarrow> error option \<times> 'w state) \<Rightarrow> 'w state
     \<Rightarrow> error option \<times> 'w state" where
  "retry_loop ctx 0 period action s = (None, s)"
| "retry_loop ctx (Suc n) period action s =
     (case action s of
        (None, s1) \<Rightarrow> (None, s1)
      | (Some err, s1) \<Rightarrow>
          if n = 0 then (Some err, s1)
          else
            (case Done ctx period (world s1) of
               (True, w) \<Rightarrow> (Some Cancelled, s1\<lparr>world := w\<rparr>)
             | (False, w) \<Rightarrow> retry_loop ctx n period action (s1\<lparr>world := w\<rparr>)))"

text \<open>
  Modelled from the spec: the entry point \<^verbatim>\<open>retry(ctx, maxAttempts, period, action)\<close> of the
  retry engine, absent from the two source files like its loop above. An attempt count
  below one leaves no attempt to make.
\<close>

definition retry ::
  "'w Context \<Rightarrow> int \<Rightarrow> int \<Rightarrow> ('w state \<Rightarrow> error option \<times> 'w state) \<Rightarrow> 'w state
     \<Rightarrow> error option \<times> 'w state" where
  "retry ctx maxAttempts period action s = retry_loop ctx (nat maxAttempts) period action s"

text \<open>The loop of the status check over the owned pods: the first pod not running fails it.\<close>

fun podsRunning_loop :: "Pod list \<Rightarrow> error option" where
  "podsRunning_loop [] = None"
| "podsRunning_loop (pod # rest) =
     (if Phase (Pod.Status pod) \<noteq> PodRunning
      then Some (CompareFailed (PodNotRunning (Name pod) (Phase (Pod.Status pod))))
      else podsRunning_loop rest)"

text \<open>The function literal that \<^verbatim>\<open>Status\<close> hands to \<^verbatim>\<open>retry\<close>: one attempt's check.\<close>

definition statusCheck ::
  "Env \<Rightarrow> 'w DeploymentControl \<Rightarrow> 'w state \<Rightarrow> error option \<times> 'w state" where
  "statusCheck env c s =
     (let ns = Namespace (deployment c);
          name = Name (deployment c) in
      case Client c of
        None \<Rightarrow> (Some NilDereference, s)
      | Some cl \<Rightarrow>
          (case invoke (GetDeployment ns name) (Deployments_Get cl ns name) s of
             (Inl err, s1) \<Rightarrow> (Some (Wrap err), s1)
           | (Inr currentDeployment, s1) \<Rightarrow>
               (let replicas = (case Replicas (Spec currentDeployment) of
                                  None \<Rightarrow> 1
                                | Some r \<Rightarrow> r);
                    updated = UpdatedReplicas (Deployment.Status currentDeployment) in
                if updated \<noteq> replicas
                then (Some (CompareFailed (ExpectedReplicas replicas updated)), s1)
                else
                  (case collectPods env c currentDeployment s1 of
                     (Inl err, s2) \<Rightarrow> (Some (Wrap err), s2)
                   | (Inr pods, s2) \<Rightarrow> (podsRunning_loop pods, s2)))))"

definition Status ::
  "Env \<Rightarrow> 'w DeploymentControl \<Rightarrow> 'w Context \<Rightarrow> int \<Rightarrow> int \<Rightarrow> 'w state
     \<Rightarrow> error option \<times> 'w state" where
  "Status env c ctx retryAttempts retryPeriod s =
     (let retryAttempts1 = (if retryAttempts = 0 then DefaultRetryAttempts env
                            else retryAttempts);
          retryPeriod1 = (if retryPeriod = 0 then DefaultRetryPeriod env else retryPeriod);
          s0 = logln (Infof ''Checking status retryAttempts=%v, retryPeriod=%v'') s
      in retry ctx retryAttempts1 retryPeriod1 (statusCheck env c) s0)"

section \<open>The specification's vocabulary\<close>

text \<open>
  A pod is owned by a resource when it carries an ownership annotation that parses to a
  reference whose kind is the Deployment kind and whose UID is the resource's.
\<close>

definition spec_owned :: "Env \<Rightarrow> Deployment \<Rightarrow> Pod \<Rightarrow> bool" where
  "spec_owned env resource pod =
     (case Annotations pod (AnnotationCreatedBy env) of
        None \<Rightarrow> False
      | Some annotation \<Rightarrow>
          (case ParseSerializedReference env annotation of
             Inl err \<Rightarrow> False
           | Inr ref \<Rightarrow> ObjectReference.Kind (Reference ref) = KindDeployment env
                        \<and> ObjectReference.UID (Reference ref) = UID resource))"

text \<open>The expected replica count: the live replicas field, 1 when it is unset.\<close>

definition spec_expectedReplicas :: "Deployment \<Rightarrow> 32 word" where
  "spec_expectedReplicas live = (case Replicas (Spec live) of None \<Rightarrow> 1 | Some r \<Rightarrow> r)"

text \<open>
  Deleting pods in turn: \<open>spec_worlds\<close> lists the states the control plane goes through
  when the pods are deleted one after the other, the first before any deletion, and
  \<open>spec_podDeleteAnswer\<close> is what the control plane answers to the deletion of the pod at
  index \<open>i\<close>, in the state the earlier deletions left.
\<close>

fun spec_worlds :: "'w Clientset \<Rightarrow> string \<Rightarrow> Pod list \<Rightarrow> 'w \<Rightarrow> 'w list" where
  "spec_worlds cl ns [] w = [w]"
| "spec_worlds cl ns (pod # rest) w =
     w # spec_worlds cl ns rest (snd (Pods_Delete cl ns (Name pod) w))"

definition spec_podDeleteAnswer ::
  "'w Clientset \<Rightarrow> string \<Rightarrow> Pod list \<Rightarrow> 'w \<Rightarrow> nat \<Rightarrow> error option" where
  "spec_podDeleteAnswer cl ns pods w i =
     fst (Pods_Delete cl ns (Name (pods ! i)) (spec_worlds cl ns pods w ! i))"

text \<open>The document that a call submits to the control plane, if it is a create or an update.\<close>

fun submitted :: "call \<Rightarrow> Deployment option" where
  "submitted (CreateDeployment ns d) = Some d"
| "submitted (UpdateDeployment ns d) = Some d"
| "submitted k = None"

section \<open>A concrete control plane\<close>

text \<open>
  A toy decoder, error classification and client, on which the properties below are run.
\<close>

definition example_Decode_SerializedReference :: "string \<Rightarrow> error + SerializedReference" where
  "example_Decode_SerializedReference r =
     (if r = ''Deployment/uid-1''
      then Inr \<lparr>Reference = \<lparr>ObjectReference.Kind = ''Deployment'', ObjectReference.UID = ''uid-1''\<rparr>\<rparr>
      else if r = ''Deployment/uid-0''
      then Inr \<lparr>Reference = \<lparr>ObjectReference.Kind = ''Deployment'', ObjectReference.UID = ''uid-0''\<rparr>\<rparr>
      else if r = ''ReplicaSet/uid-1''
      then Inr \<lparr>Reference = \<lparr>ObjectReference.Kind = ''ReplicaSet'', ObjectReference.UID = ''uid-1''\<rparr>\<rparr>
      else Inl (DecodeError r))"

definition example_document :: "string \<Rightarrow> string \<Rightarrow> string \<Rightarrow> Deployment" where
  "example_document kind ns uid =
     \<lparr>Kind = kind, Namespace = ns, Name = ''web'', UID = uid, SelfLink = ''/apis/web'',
      ResourceVersion = ''41'', Annotations = Map.empty,
      Spec = \<lparr>Replicas = Some 3, Selector = Some \<lparr>MatchLabels = [''app'' \<mapsto> ''web'']\<rparr>\<rparr>,
      Status = \<lparr>UpdatedReplicas = 3\<rparr>\<rparr>"

definition example_Decode_Deployment :: "string \<Rightarrow> error + Deployment" where
  "example_Decode_Deployment bytes =
     (if bytes = ''kind: ReplicaSet''
      then Inr (example_document ''ReplicaSet'' ''prod'' [])
      else Inl (DecodeError bytes))"

definition example_convertErr :: "error \<Rightarrow> error" where
  "example_convertErr err =
     (case err of
        StatusError code m \<Rightarrow>
          if code = 404 then NotFound m else if code = 409 then AlreadyExists m else err
      | _ \<Rightarrow> err)"

definition example_env :: Env where
  "example_env =
     \<lparr>KindDeployment = ''Deployment'', AnnotationCreatedBy = ''kubernetes.io/created-by'',
      DefaultRetryAttempts = 3, DefaultRetryPeriod = 1000,
      convertErr = example_convertErr,
      Decode_SerializedReference = example_Decode_SerializedReference,
      Decode_Deployment = example_Decode_Deployment\<rparr>"

definition example_pod :: "string \<Rightarrow> string option \<Rightarrow> PodPhase \<Rightarrow> Pod" where
  "example_pod name createdBy phase =
     \<lparr>Kind = ''Pod'', Namespace = ''prod'', Name = name, UID = name, SelfLink = [],
      ResourceVersion = ''7'',
      Annotations = (case createdBy of None \<Rightarrow> Map.empty
                     | Some r \<Rightarrow> [''kubernetes.io/created-by'' \<mapsto> r]),
      Pod.Status = \<lparr>Phase = phase\<rparr>\<rparr>"

definition example_pods :: "Pod list" where
  "example_pods =
     [example_pod ''web-1'' (Some ''Deployment/uid-1'') PodRunning,
      example_pod ''web-2'' (Some ''Deployment/uid-0'') PodPending,
      example_pod ''web-3'' None PodPending,
      example_pod ''web-4'' (Some ''not a reference'') PodFailed,
      example_pod ''web-5'' (Some ''ReplicaSet/uid-1'') PodPending,
      example_pod ''web-6'' (Some ''Deployment/uid-1'') PodRunning,
      example_pod ''web-7'' (Some ''Deployment/uid-1'') PodRunning]"

text \<open>
  A control plane that counts the requests it served. It holds the deployment \<open>web\<close> with
  UID \<open>uid-1\<close>, one that is still rolling out (\<open>rolling\<close>), one whose pod is not running
  yet (\<open>starting\<close>) and one with no replica count (\<open>single\<close>); a get of \<open>broken\<close> fails
  with a server error and any other name is not found; deleting the pod \<open>web-6\<close> fails.
\<close>

definition example_client :: "nat Clientset" where
  "example_client =
     \<lparr>Deployments_Get = (\<lambda>ns name w.
        (if name = ''web'' then Inr (example_document ''Deployment'' ns ''uid-1'')
         else if name = ''rolling''
         then Inr ((example_document ''Deployment'' ns ''uid-1'')
                     \<lparr>Deployment.Status := \<lparr>UpdatedReplicas = 2\<rparr>\<rparr>)
         else if name = ''starting'' then Inr (example_document ''Deployment'' ns ''uid-0'')
         else if name = ''single''
         then Inr ((example_document ''Deployment'' ns ''uid-9'')
                     \<lparr>Spec := \<lparr>Replicas = None, Selector = None\<rparr>,
                      Deployment.Status := \<lparr>UpdatedReplicas = 1\<rparr>\<rparr>)
         else if name = ''broken'' then Inl (StatusError 500 ''internal error'')
         else Inl (StatusError 404 ''not found''), Suc w)),
      Deployments_Create = (\<lambda>ns d w. (Inr (d\<lparr>UID := ''uid-2''\<rparr>), Suc w)),
      Deployments_Update = (\<lambda>ns d w. (Inr (d\<lparr>UID := ''uid-1''\<rparr>), Suc w)),
      Deployments_Delete = (\<lambda>ns name w. (None, Suc w)),
      Pods_List = (\<lambda>ns labelSet w. (Inr example_pods, Suc w)),
      Pods_Delete = (\<lambda>ns name w.
        (if name = ''web-6'' then Some (StatusError 500 ''internal error'') else None, Suc w))\<rparr>"

definition example_control :: "string \<Rightarrow> nat DeploymentControl" where
  "example_control name =
     \<lparr>Reader = None, Deployment = None, Client = Some example_client,
      deployment = (example_document ''Deployment'' ''prod'' ''uid-0'')\<lparr>Name := name\<rparr>\<rparr>"

definition example_state :: "nat state" where
  "example_state = \<lparr>world = 0, calls = [], logged = []\<rparr>"

definition example_ctx :: "nat Context" where
  "example_ctx = \<lparr>Done = (\<lambda>period w. (False, w))\<rparr>"

lemmas example_defs =
  example_env_def example_client_def example_control_def example_state_def example_ctx_def
  example_pods_def example_pod_def example_document_def example_convertErr_def
  example_Decode_SerializedReference_def example_Decode_Deployment_def


section \<open>Ownership resolution\<close>

lemma collectPods_loop_fst:
  "fst (collectPods_loop env d acc items s) = acc @ filter (spec_owned env d) items"
  by (induction items arbitrary: acc s)
     (auto simp: spec_owned_def Let_def split: option.splits sum.splits)

lemma collectPods_loop_remote:
  "world (snd (collectPods_loop env d acc items s)) = world s
   \<and> calls (snd (collectPods_loop env d acc items s)) = calls s"
  by (induction items arbitrary: acc s)
     (auto simp: logln_def Let_def split: option.splits sum.splits)

lemma collectPods_result:
  assumes "Client c = Some cl"
      and "Pods_List cl (Namespace d) (selectorSet (deployment c)) (world s) = (r, w)"
  shows "fst (collectPods env c d s) =
           (case r of Inl err \<Rightarrow> Inl (Wrap err)
            | Inr podList \<Rightarrow> Inr (filter (spec_owned env d) podList))"
    and "world (snd (collectPods env c d s)) = w"
    and "calls (snd (collectPods env c d s)) =
           calls s @ [ListPods (Namespace d) (selectorSet (deployment c))]"
  using assms
  by (simp_all add: collectPods_def invoke_def Let_def logln_def case_prod_beta
        collectPods_loop_fst collectPods_loop_remote split: sum.splits)


text \<open>
  C1: when the list call answers with a pod list, \<^verbatim>\<open>collectPods\<close> returns exactly the pods
  of that list whose ownership annotation parses to a reference with the Deployment kind
  and the live resource's UID, in the order of the list; a pod whose annotation is absent
  or does not parse is left out, and the operation still succeeds.
\<close>

theorem collectPods_ownership_exact:
  assumes "Client c = Some cl"
      and "Pods_List cl (Namespace live) (selectorSet (deployment c)) (world s) = (Inr podList, w)"
  shows "fst (collectPods env c live s) = Inr (filter (spec_owned env live) podList)
         \<and> (\<forall>pod \<in> set podList.
               Annotations pod (AnnotationCreatedBy env) = None
               \<or> (\<exists>annotation err. Annotations pod (AnnotationCreatedBy env) = Some annotation
                     \<and> ParseSerializedReference env annotation = Inl err)
               \<longrightarrow> pod \<notin> set (filter (spec_owned env live) podList))"
proof -
  have "fst (collectPods env c live s) = Inr (filter (spec_owned env live) podList)"
    using collectPods_result(1)[OF assms, of env] by simp
  moreover have "\<forall>pod \<in> set podList.
               Annotations pod (AnnotationCreatedBy env) = None
               \<or> (\<exists>annotation err. Annotations pod (AnnotationCreatedBy env) = Some annotation
                     \<and> ParseSerializedReference env annotation = Inl err)
               \<longrightarrow> pod \<notin> set (filter (spec_owned env live) podList)"
    by (auto simp: spec_owned_def)
  ultimately show ?thesis by simp
qed

theorem collectPods_ownership_exact_witness:
  "Client (example_control ''web'') = Some example_client
   \<and> Pods_List example_client ''prod'' (selectorSet (deployment (example_control ''web'')))
        (world example_state) = (Inr example_pods, 1)
   \<and> fst (collectPods example_env (example_control ''web'')
             (example_document ''Deployment'' ''prod'' ''uid-1'') example_state)
       = Inr [example_pod ''web-1'' (Some ''Deployment/uid-1'') PodRunning,
              example_pod ''web-6'' (Some ''Deployment/uid-1'') PodRunning,
      example_pod ''web-7'' (Some ''Deployment/uid-1'') PodRunning]"
  using collectPods_ownership_exact[of "example_control ''web''" example_client
          "example_document ''Deployment'' ''prod'' ''uid-1''" example_state example_pods 1
          example_env]
  by (simp add: example_defs spec_owned_def ParseSerializedReference_def)

lemma collectPods_loop_cong:
  "UID d' = UID d \<Longrightarrow>
     collectPods_loop env d' acc items s = collectPods_loop env d acc items s"
proof (induction items arbitrary: acc s)
  case Nil
  then show ?case by simp
next
  case (Cons pod items)
  show ?case
    by (simp add: Cons Let_def split: option.splits sum.splits)
qed

lemma selectorSet_eq:
  "selectorSet d = (case Selector (Spec d) of None \<Rightarrow> Map.empty | Some sel \<Rightarrow> MatchLabels sel)"
  by (simp add: selectorSet_def split: option.splits)

text \<open>
  C9: the label set of the list call is the selector of the controller's own document,
  captured at construction, and nothing of the live resource but its namespace and its UID
  reaches \<^verbatim>\<open>collectPods\<close>: the pods are listed by the stale selector when the live one
  differs, and the ownership check compares with the live UID.
\<close>

theorem collectPods_selector_source:
  assumes "Client c = Some cl"
  shows "calls (snd (collectPods env c live s)) =
           calls s @ [ListPods (Namespace live)
                        (case Selector (Spec (deployment c)) of
                           None \<Rightarrow> Map.empty
                         | Some sel \<Rightarrow> MatchLabels sel)]
         \<and> (\<forall>live'. Namespace live' = Namespace live \<and> UID live' = UID live
               \<longrightarrow> collectPods env c live' s = collectPods env c live s)
         \<and> (\<forall>podList w.
               Pods_List cl (Namespace live) (selectorSet (deployment c)) (world s) = (Inr podList, w)
               \<longrightarrow> fst (collectPods env c live s) = Inr (filter (spec_owned env live) podList))"
proof -
  obtain r w where lst:
    "Pods_List cl (Namespace live) (selectorSet (deployment c)) (world s) = (r, w)"
    by (cases "Pods_List cl (Namespace live) (selectorSet (deployment c)) (world s)")
  have "calls (snd (collectPods env c live s)) =
          calls s @ [ListPods (Namespace live) (selectorSet (deployment c))]"
    using collectPods_result(3)[OF assms lst] .
  then have A: "calls (snd (collectPods env c live s)) =
           calls s @ [ListPods (Namespace live)
                        (case Selector (Spec (deployment c)) of
                           None \<Rightarrow> Map.empty
                         | Some sel \<Rightarrow> MatchLabels sel)]"
    by (simp add: selectorSet_eq)
  have B: "\<forall>live'. Namespace live' = Namespace live \<and> UID live' = UID live
               \<longrightarrow> collectPods env c live' s = collectPods env c live s"
  proof (intro allI impI)
    fix live' :: Deployment
    assume h: "Namespace live' = Namespace live \<and> UID live' = UID live"
    then have n: "Namespace live' = Namespace live" and u: "UID live' = UID live"
      by simp_all
    have l: "\<And>items t. collectPods_loop env live' [] items t
               = collectPods_loop env live [] items (t :: 'a state)"
      by (rule collectPods_loop_cong[OF u])
    show "collectPods env c live' s = collectPods env c live s"
      unfolding collectPods_def n l by (rule refl)
  qed
  have C: "\<forall>podList w.
               Pods_List cl (Namespace live) (selectorSet (deployment c)) (world s) = (Inr podList, w)
               \<longrightarrow> fst (collectPods env c live s) = Inr (filter (spec_owned env live) podList)"
  proof (intro allI impI)
    fix podList w
    assume "Pods_List cl (Namespace live) (selectorSet (deployment c)) (world s) = (Inr podList, w)"
    from collectPods_result(1)[OF assms this, of env]
    show "fst (collectPods env c live s) = Inr (filter (spec_owned env live) podList)"
      by simp
  qed
  show ?thesis
    by (intro conjI) (rule A, rule B, rule C)
qed

theorem collectPods_selector_source_witness:
  "Client (example_control ''web'') = Some example_client
   \<and> Selector (Spec (deployment (example_control ''web'')))
       = Some \<lparr>MatchLabels = [''app'' \<mapsto> ''web'']\<rparr>
   \<and> calls (snd (collectPods example_env (example_control ''web'')
        ((example_document ''Deployment'' ''prod'' ''uid-1'')
           \<lparr>Spec := \<lparr>Replicas = None, Selector = Some \<lparr>MatchLabels = [''app'' \<mapsto> ''api'']\<rparr>\<rparr>\<rparr>)
        example_state))
       = [ListPods ''prod'' [''app'' \<mapsto> ''web'']]
   \<and> collectPods example_env (example_control ''web'')
        ((example_document ''Deployment'' ''prod'' ''uid-1'')
           \<lparr>Spec := \<lparr>Replicas = None, Selector = Some \<lparr>MatchLabels = [''app'' \<mapsto> ''api'']\<rparr>\<rparr>\<rparr>)
        example_state
       = collectPods example_env (example_control ''web'')
           (example_document ''Deployment'' ''prod'' ''uid-1'') example_state
   \<and> fst (collectPods example_env (example_control ''web'')
        ((example_document ''Deployment'' ''prod'' ''uid-1'')
           \<lparr>Spec := \<lparr>Replicas = None, Selector = Some \<lparr>MatchLabels = [''app'' \<mapsto> ''api'']\<rparr>\<rparr>\<rparr>)
        example_state)
       = Inr [example_pod ''web-1'' (Some ''Deployment/uid-1'') PodRunning,
              example_pod ''web-6'' (Some ''Deployment/uid-1'') PodRunning,
      example_pod ''web-7'' (Some ''Deployment/uid-1'') PodRunning]"
proof -
  let ?c = "example_control ''web''"
  let ?live = "example_document ''Deployment'' ''prod'' ''uid-1''"
  let ?live' = "?live\<lparr>Spec := \<lparr>Replicas = None,
                   Selector = Some \<lparr>MatchLabels = [''app'' \<mapsto> ''api'']\<rparr>\<rparr>\<rparr>"
  have cl: "Client ?c = Some example_client"
    by (simp add: example_control_def)
  note T = collectPods_selector_source[OF cl, of example_env ?live' example_state]
  have ns: "Namespace ?live' = ''prod''" and ns0: "Namespace ?live = ''prod''"
    and uid: "UID ?live' = UID ?live"
    by (simp_all add: example_document_def)
  have sel: "Selector (Spec (deployment ?c)) = Some \<lparr>MatchLabels = [''app'' \<mapsto> ''web'']\<rparr>"
    by (simp add: example_control_def example_document_def)
  have st: "calls example_state = []" "world example_state = 0"
    by (simp_all add: example_state_def)
  have lst: "Pods_List example_client (Namespace ?live') (selectorSet (deployment ?c))
               (world example_state) = (Inr example_pods, 1)"
    by (simp add: example_client_def st)
  have 1: "calls (snd (collectPods example_env ?c ?live' example_state))
             = [ListPods ''prod'' [''app'' \<mapsto> ''web'']]"
    using T[THEN conjunct1] by (simp add: ns sel st)
  have 2: "collectPods example_env ?c ?live example_state
             = collectPods example_env ?c ?live' example_state"
    using T[THEN conjunct2, THEN conjunct1, rule_format, of ?live] by (simp only: ns ns0 uid)
  have 3: "fst (collectPods example_env ?c ?live' example_state)
             = Inr (filter (spec_owned example_env ?live') example_pods)"
    using T[THEN conjunct2, THEN conjunct2, rule_format, OF lst] .
  have 4: "filter (spec_owned example_env ?live') example_pods
             = [example_pod ''web-1'' (Some ''Deployment/uid-1'') PodRunning,
                example_pod ''web-6'' (Some ''Deployment/uid-1'') PodRunning,
      example_pod ''web-7'' (Some ''Deployment/uid-1'') PodRunning]"
    by (simp add: example_defs spec_owned_def ParseSerializedReference_def)
  have 5: "fst (collectPods example_env ?c ?live' example_state)
             = Inr [example_pod ''web-1'' (Some ''Deployment/uid-1'') PodRunning,
                    example_pod ''web-6'' (Some ''Deployment/uid-1'') PodRunning,
      example_pod ''web-7'' (Some ''Deployment/uid-1'') PodRunning]"
    using 3 by (simp only: 4)
  show ?thesis
    by (intro conjI) (rule cl, rule sel, rule 1, rule 2[symmetric], rule 5)
qed

section \<open>Upsert\<close>

lemma Upsert_unfold:
  assumes cl: "Client c = Some cl"
      and get: "Deployments_Get cl (Namespace (deployment c)) (Name (deployment c)) (world s) = (g, w1)"
  shows "Upsert env c ctx s =
     (let ns = Namespace (deployment c);
          doc = (deployment c)\<lparr>UID := '''', SelfLink := '''', ResourceVersion := ''''\<rparr>;
          c1 = c\<lparr>deployment := doc\<rparr>;
          s1 = s\<lparr>world := w1, calls := calls s @ [GetDeployment ns (Name (deployment c))],
                   logged := logged s @ [Infof ''Upsert'']\<rparr>
      in case g of
           Inl err0 \<Rightarrow>
             if \<not> IsNotFound (convertErr env err0)
             then (Some (Wrap (convertErr env err0)), c1, s1)
             else (map_option (convertErr env) (errorOf (fst (Deployments_Create cl ns doc w1))), c1,
                   s1\<lparr>world := snd (Deployments_Create cl ns doc w1),
                      calls := calls s1 @ [CreateDeployment ns doc]\<rparr>)
         | Inr found \<Rightarrow>
             (map_option (convertErr env) (errorOf (fst (Deployments_Update cl ns doc w1))), c1,
              s1\<lparr>world := snd (Deployments_Update cl ns doc w1),
                 calls := calls s1 @ [UpdateDeployment ns doc]\<rparr>))"
  using cl get
  by (simp add: Upsert_def Let_def invoke_def logln_def case_prod_beta split: sum.splits)

lemma example_Client: "Client (example_control name) = Some example_client"
  by (simp add: example_control_def)

lemma example_Get:
  "Deployments_Get example_client (Namespace (deployment (example_control name)))
     (Name (deployment (example_control name))) (world example_state) =
   (if name = ''web'' then Inr (example_document ''Deployment'' ''prod'' ''uid-1'')
    else if name = ''rolling''
    then Inr ((example_document ''Deployment'' ''prod'' ''uid-1'')
                \<lparr>Deployment.Status := \<lparr>UpdatedReplicas = 2\<rparr>\<rparr>)
    else if name = ''starting'' then Inr (example_document ''Deployment'' ''prod'' ''uid-0'')
    else if name = ''single''
    then Inr ((example_document ''Deployment'' ''prod'' ''uid-9'')
                \<lparr>Spec := \<lparr>Replicas = None, Selector = None\<rparr>,
                 Deployment.Status := \<lparr>UpdatedReplicas = 1\<rparr>\<rparr>)
    else if name = ''broken'' then Inl (StatusError 500 ''internal error'')
    else Inl (StatusError 404 ''not found''), 1)"
  by (simp add: example_control_def example_client_def example_state_def example_document_def)

lemma example_convertErr_simps:
  "convertErr example_env (StatusError 404 m) = NotFound m"
  "convertErr example_env (StatusError 500 m) = StatusError 500 m"
  by (simp_all add: example_env_def example_convertErr_def)

lemma example_Upsert_calls:
  "calls (snd (snd (Upsert example_env (example_control ''absent'') example_ctx example_state)))
     = [GetDeployment ''prod'' ''absent'',
        CreateDeployment ''prod''
          ((example_document ''Deployment'' ''prod'' '''')
             \<lparr>Name := ''absent'', SelfLink := '''', ResourceVersion := ''''\<rparr>)]"
  "calls (snd (snd (Upsert example_env (example_control ''web'') example_ctx example_state)))
     = [GetDeployment ''prod'' ''web'',
        UpdateDeployment ''prod''
          ((example_document ''Deployment'' ''prod'' '''')
             \<lparr>SelfLink := '''', ResourceVersion := ''''\<rparr>)]"
  by (simp_all add: Upsert_unfold[OF example_Client example_Get] Let_def example_convertErr_simps)
     (simp_all add: example_control_def example_document_def example_state_def)



text \<open>
  C4: every document that \<^verbatim>\<open>Upsert\<close> passes to create or update has an empty UID, self
  link and resource version: the three fields are cleared before the existence check is
  issued, and they stay cleared in the controller whatever the outcome.
\<close>

theorem Upsert_identity_reset:
  assumes "Client c = Some cl"
  shows "(\<exists>issued.
            calls (snd (snd (Upsert env c ctx s))) =
              calls s @ GetDeployment (Namespace (deployment c)) (Name (deployment c)) # issued
            \<and> (\<forall>k \<in> set issued. \<forall>d. submitted k = Some d \<longrightarrow>
                  UID d = '''' \<and> SelfLink d = '''' \<and> ResourceVersion d = ''''))
         \<and> UID (deployment (fst (snd (Upsert env c ctx s)))) = ''''
         \<and> SelfLink (deployment (fst (snd (Upsert env c ctx s)))) = ''''
         \<and> ResourceVersion (deployment (fst (snd (Upsert env c ctx s)))) = ''''"
proof -
  obtain g w1 where get:
    "Deployments_Get cl (Namespace (deployment c)) (Name (deployment c)) (world s) = (g, w1)"
    by (cases "Deployments_Get cl (Namespace (deployment c)) (Name (deployment c)) (world s)")
  note U = Upsert_unfold[OF assms get, of env ctx]
  show ?thesis
  proof (cases g)
    case (Inl err0)
    show ?thesis
    proof (cases "IsNotFound (convertErr env err0)")
      case True
      with Inl U show ?thesis by (simp add: Let_def)
    next
      case False
      with Inl U show ?thesis by (simp add: Let_def)
    qed
  next
    case (Inr found)
    with U show ?thesis by (simp add: Let_def)
  qed
qed

theorem Upsert_identity_reset_witness:
  "UID (deployment (example_control ''web'')) = ''uid-0''
   \<and> SelfLink (deployment (example_control ''web'')) = ''/apis/web''
   \<and> ResourceVersion (deployment (example_control ''web'')) = ''41''
   \<and> (\<exists>d. calls (snd (snd (Upsert example_env (example_control ''web'') example_ctx example_state)))
            = [GetDeployment ''prod'' ''web'', UpdateDeployment ''prod'' d]
          \<and> UID d = '''' \<and> SelfLink d = '''' \<and> ResourceVersion d = '''')
   \<and> UID (deployment (fst (snd (Upsert example_env (example_control ''web'') example_ctx
                                      example_state)))) = ''''"
proof -
  let ?U = "Upsert example_env (example_control ''web'') example_ctx example_state"
  let ?d = "(example_document ''Deployment'' ''prod'' '''')
               \<lparr>SelfLink := '''', ResourceVersion := ''''\<rparr>"
  note T = Upsert_identity_reset[OF example_Client, of example_env "''web''" example_ctx example_state]
  from T obtain issued where
    i: "calls (snd (snd ?U)) = calls example_state
          @ GetDeployment (Namespace (deployment (example_control ''web'')))
              (Name (deployment (example_control ''web''))) # issued"
    and b: "\<forall>k \<in> set issued. \<forall>d. submitted k = Some d \<longrightarrow>
                  UID d = '''' \<and> SelfLink d = '''' \<and> ResourceVersion d = ''''"
    by blast
  have e: "calls (snd (snd ?U)) = [GetDeployment ''prod'' ''web'', UpdateDeployment ''prod'' ?d]"
    by (rule example_Upsert_calls(2))
  from i e have "issued = [UpdateDeployment ''prod'' ?d]"
    by (simp add: example_state_def)
  with b have f: "UID ?d = '''' \<and> SelfLink ?d = '''' \<and> ResourceVersion ?d = ''''"
    by simp
  have 1: "\<exists>d. calls (snd (snd ?U)) = [GetDeployment ''prod'' ''web'', UpdateDeployment ''prod'' d]
          \<and> UID d = '''' \<and> SelfLink d = '''' \<and> ResourceVersion d = ''''"
    using e f by blast
  have 2: "UID (deployment (example_control ''web'')) = ''uid-0''"
    "SelfLink (deployment (example_control ''web'')) = ''/apis/web''"
    "ResourceVersion (deployment (example_control ''web'')) = ''41''"
    by (simp_all add: example_control_def example_document_def)
  have 3: "UID (deployment (fst (snd ?U))) = ''''"
    using T by blast
  show ?thesis
    by (intro conjI) (rule 2(1), rule 2(2), rule 2(3), rule 1, rule 3)
qed

text \<open>
  C7 (as amended): when the existence check fails with an error that is not a not-found
  error, \<^verbatim>\<open>Upsert\<close> returns that error wrapped by \<^verbatim>\<open>trace.Wrap\<close>, and issues neither a
  create nor an update.
\<close>

theorem Upsert_fetch_error_wrapped:
  assumes "Client c = Some cl"
      and "Deployments_Get cl (Namespace (deployment c)) (Name (deployment c)) (world s) = (Inl err, w1)"
      and "\<not> IsNotFound (convertErr env err)"
  shows "fst (Upsert env c ctx s) = Some (Wrap (convertErr env err))
         \<and> calls (snd (snd (Upsert env c ctx s))) =
             calls s @ [GetDeployment (Namespace (deployment c)) (Name (deployment c))]"
  using assms(3) by (simp add: Upsert_unfold[OF assms(1,2)] Let_def)

theorem Upsert_fetch_error_wrapped_witness:
  "Client (example_control ''broken'') = Some example_client
   \<and> fst (Deployments_Get example_client ''prod'' ''broken'' 0) = Inl (StatusError 500 ''internal error'')
   \<and> \<not> IsNotFound (convertErr example_env (StatusError 500 ''internal error''))
   \<and> fst (Upsert example_env (example_control ''broken'') example_ctx example_state)
       = Some (Wrap (StatusError 500 ''internal error''))
   \<and> calls (snd (snd (Upsert example_env (example_control ''broken'') example_ctx example_state)))
       = [GetDeployment ''prod'' ''broken'']"
proof -
  have g: "Deployments_Get example_client (Namespace (deployment (example_control ''broken'')))
              (Name (deployment (example_control ''broken''))) (world example_state)
            = (Inl (StatusError 500 ''internal error''), 1)"
    by (simp add: example_Get)
  have nf: "\<not> IsNotFound (convertErr example_env (StatusError 500 ''internal error''))"
    by (simp add: example_convertErr_simps)
  note T = Upsert_fetch_error_wrapped[OF example_Client g nf, of example_ctx]
  have 1: "fst (Upsert example_env (example_control ''broken'') example_ctx example_state)
       = Some (Wrap (StatusError 500 ''internal error''))"
    using T by (simp add: example_convertErr_simps)
  have 2: "calls (snd (snd (Upsert example_env (example_control ''broken'') example_ctx example_state)))
       = [GetDeployment ''prod'' ''broken'']"
    using T by (simp add: example_control_def example_document_def example_state_def)
  have 3: "fst (Deployments_Get example_client ''prod'' ''broken'' 0) = Inl (StatusError 500 ''internal error'')"
    by (simp add: example_client_def)
  show ?thesis
    by (intro conjI) (rule example_Client, rule 3, rule nf, rule 1, rule 2)
qed

text \<open>
  C7 with the error returned unwrapped, as the specification words it, does not hold: on a
  server error of the get, which the classification leaves alone, the caller receives the
  wrapped error and not the error itself.
\<close>

theorem Upsert_fetch_error_unwrapped_counterexample:
  "fst (Deployments_Get example_client ''prod'' ''broken'' 0) = Inl (StatusError 500 ''internal error'')
   \<and> convertErr example_env (StatusError 500 ''internal error'') = StatusError 500 ''internal error''
   \<and> \<not> IsNotFound (StatusError 500 ''internal error'')
   \<and> fst (Upsert example_env (example_control ''broken'') example_ctx example_state)
       \<noteq> Some (StatusError 500 ''internal error'')"
proof -
  have g: "Deployments_Get example_client (Namespace (deployment (example_control ''broken'')))
              (Name (deployment (example_control ''broken''))) (world example_state)
            = (Inl (StatusError 500 ''internal error''), 1)"
    by (simp add: example_Get)
  have "fst (Upsert example_env (example_control ''broken'') example_ctx example_state)
          = Some (Wrap (StatusError 500 ''internal error''))"
    by (simp add: Upsert_unfold[OF example_Client g] Let_def example_convertErr_simps)
  then show ?thesis
    by (simp add: example_client_def example_convertErr_simps)
qed

section \<open>Delete\<close>

lemma logln_remote [simp]:
  "world (logln l s) = world s" "calls (logln l s) = calls s"
  by (simp_all add: logln_def)

lemma invoke_simps:
  "fst (invoke k f s) = fst (f (world s))"
  "world (snd (invoke k f s)) = snd (f (world s))"
  "calls (snd (invoke k f s)) = calls s @ [k]"
  by (simp_all add: invoke_def case_prod_beta)

lemma deletePods_loop_Cons:
  "deletePods_loop cl ns (pod # rest) s =
     (let r = invoke (DeletePod ns (Name pod)) (Pods_Delete cl ns (Name pod))
                (logln (Infof ''deleting pod %v'') s)
      in case fst r of Some err \<Rightarrow> (Some (Wrap err), snd r)
         | None \<Rightarrow> deletePods_loop cl ns rest (snd r))"
  by (simp add: Let_def case_prod_beta split: option.splits prod.splits)

lemma deletePods_loop_trace:
  "\<exists>k \<le> length pods.
      calls (snd (deletePods_loop cl ns pods s)) =
        calls s @ map (\<lambda>pod. DeletePod ns (Name pod)) (take k pods)
      \<and> (fst (deletePods_loop cl ns pods s) = None \<longrightarrow> k = length pods)
      \<and> (\<forall>err. fst (deletePods_loop cl ns pods s) = Some err \<longrightarrow>
            0 < k \<and> (\<exists>e w. err = Wrap e
                        \<and> fst (Pods_Delete cl ns (Name (pods ! (k - 1))) w) = Some e))"
proof (induction pods arbitrary: s)
  case Nil
  show ?case by simp
next
  case (Cons pod rest)
  let ?r = "invoke (DeletePod ns (Name pod)) (Pods_Delete cl ns (Name pod))
              (logln (Infof ''deleting pod %v'') s)"
  show ?case
  proof (cases "fst ?r")
    case (Some e)
    then have res: "deletePods_loop cl ns (pod # rest) s = (Some (Wrap e), snd ?r)"
      by (simp add: deletePods_loop_Cons Let_def del: deletePods_loop.simps(2))
    have "fst (Pods_Delete cl ns (Name pod) (world s)) = Some e"
      using Some by (simp add: invoke_simps)
    then have a: "calls (snd (deletePods_loop cl ns (pod # rest) s)) =
          calls s @ map (\<lambda>pod. DeletePod ns (Name pod)) (take 1 (pod # rest))"
      and b: "fst (deletePods_loop cl ns (pod # rest) s) = None \<longrightarrow> 1 = length (pod # rest)"
      and c: "\<forall>err. fst (deletePods_loop cl ns (pod # rest) s) = Some err \<longrightarrow>
            0 < (1::nat) \<and> (\<exists>e w. err = Wrap e
                        \<and> fst (Pods_Delete cl ns (Name ((pod # rest) ! (1 - 1))) w) = Some e)"
      unfolding res by (auto simp: invoke_simps)
    have "(1::nat) \<le> length (pod # rest)" by simp
    then show ?thesis
      using a b c by (intro exI[of _ 1] conjI)
  next
    case None
    then have res: "deletePods_loop cl ns (pod # rest) s = deletePods_loop cl ns rest (snd ?r)"
      by (simp add: deletePods_loop_Cons Let_def del: deletePods_loop.simps(2))
    from Cons.IH[of "snd ?r"] obtain k where kk: "k \<le> length rest \<and>
        calls (snd (deletePods_loop cl ns rest (snd ?r))) =
          calls (snd ?r) @ map (\<lambda>pod. DeletePod ns (Name pod)) (take k rest)
        \<and> (fst (deletePods_loop cl ns rest (snd ?r)) = None \<longrightarrow> k = length rest)
        \<and> (\<forall>err. fst (deletePods_loop cl ns rest (snd ?r)) = Some err \<longrightarrow>
            0 < k \<and> (\<exists>e w. err = Wrap e
                        \<and> fst (Pods_Delete cl ns (Name (rest ! (k - 1))) w) = Some e))"
      ..
    note k = kk[THEN conjunct1]
     and c = kk[THEN conjunct2, THEN conjunct1]
     and n = kk[THEN conjunct2, THEN conjunct2, THEN conjunct1]
     and e = kk[THEN conjunct2, THEN conjunct2, THEN conjunct2]
    have g1: "Suc k \<le> length (pod # rest)" using k by simp
    have g2: "calls (snd (deletePods_loop cl ns (pod # rest) s)) =
        calls s @ map (\<lambda>pod. DeletePod ns (Name pod)) (take (Suc k) (pod # rest))"
      unfolding res c by (simp add: invoke_simps)
    have g3: "fst (deletePods_loop cl ns (pod # rest) s) = None \<longrightarrow>
        Suc k = length (pod # rest)"
      unfolding res using n by simp
    have g4: "\<forall>err. fst (deletePods_loop cl ns (pod # rest) s) = Some err \<longrightarrow>
            0 < Suc k \<and> (\<exists>e w. err = Wrap e
                        \<and> fst (Pods_Delete cl ns (Name ((pod # rest) ! (Suc k - 1))) w) = Some e)"
    proof (intro allI impI)
      fix err assume "fst (deletePods_loop cl ns (pod # rest) s) = Some err"
      then have "fst (deletePods_loop cl ns rest (snd ?r)) = Some err"
        unfolding res .
      with e have pos: "0 < k" and ex: "\<exists>e w. err = Wrap e
                        \<and> fst (Pods_Delete cl ns (Name (rest ! (k - 1))) w) = Some e"
        by simp_all
      from pos have "(pod # rest) ! (Suc k - 1) = rest ! (k - 1)"
        by (cases k) simp_all
      with ex show "0 < Suc k \<and> (\<exists>e w. err = Wrap e
                        \<and> fst (Pods_Delete cl ns (Name ((pod # rest) ! (Suc k - 1))) w) = Some e)"
        by simp
    qed
    show ?thesis
      using g1 g2 g3 g4 by (intro exI[of _ "Suc k"] conjI)
  qed
qed

lemma deletePods_loop_log_irrelevant:
  "world s = world t \<Longrightarrow> calls s = calls t \<Longrightarrow>
     fst (deletePods_loop cl ns pods s) = fst (deletePods_loop cl ns pods t)
     \<and> world (snd (deletePods_loop cl ns pods s)) = world (snd (deletePods_loop cl ns pods t))
     \<and> calls (snd (deletePods_loop cl ns pods s)) = calls (snd (deletePods_loop cl ns pods t))"
proof (induction pods arbitrary: s t)
  case Nil
  then show ?case by simp
next
  case (Cons pod rest)
  let ?rs = "invoke (DeletePod ns (Name pod)) (Pods_Delete cl ns (Name pod))
              (logln (Infof ''deleting pod %v'') s)"
  let ?rt = "invoke (DeletePod ns (Name pod)) (Pods_Delete cl ns (Name pod))
              (logln (Infof ''deleting pod %v'') t)"
  have same: "fst ?rs = fst ?rt" "world (snd ?rs) = world (snd ?rt)"
    "calls (snd ?rs) = calls (snd ?rt)"
    using Cons.prems by (simp_all add: invoke_simps)
  show ?case
  proof (cases "fst ?rs")
    case None
    with same(1) have "fst ?rt = None" by simp
    with None Cons.IH[OF same(2,3)] show ?thesis
      by (simp add: deletePods_loop_Cons Let_def del: deletePods_loop.simps(2))
  next
    case (Some e)
    with same(1) have "fst ?rt = Some e" by simp
    with Some same show ?thesis
      by (simp add: deletePods_loop_Cons Let_def del: deletePods_loop.simps(2))
  qed
qed

lemma Delete_get_fails:
  assumes cl: "Client c = Some cl"
      and get: "Deployments_Get cl (Namespace (deployment c)) (Name (deployment c)) (world s)
                  = (Inl err, w1)"
  shows "fst (Delete env c ctx cascade s) = Some (Wrap err)"
    and "calls (snd (Delete env c ctx cascade s)) =
           calls s @ [GetDeployment (Namespace (deployment c)) (Name (deployment c))]"
  using cl get
  by (simp_all add: Delete_def Let_def invoke_def logln_def)

lemma Delete_reaches_pods:
  assumes cl: "Client c = Some cl"
      and get: "Deployments_Get cl (Namespace (deployment c)) (Name (deployment c)) (world s)
                  = (Inr live, w1)"
      and lst: "Pods_List cl (Namespace live) (selectorSet (deployment c)) w1 = (Inr podList, w2)"
      and del: "Deployments_Delete cl (Namespace (deployment c)) (Name (deployment c)) w2
                  = (None, w3)"
  shows "\<exists>t. world t = w3
           \<and> calls t = calls s @ [GetDeployment (Namespace (deployment c)) (Name (deployment c)),
                                  ListPods (Namespace live) (selectorSet (deployment c)),
                                  DeleteDeployment (Namespace (deployment c)) (Name (deployment c))]
           \<and> Delete env c ctx cascade s =
               deletePods_loop cl (Namespace (deployment c))
                 (filter (spec_owned env live) podList) t"
proof -
  let ?ns = "Namespace (deployment c)" and ?name = "Name (deployment c)"
  let ?g = "invoke (GetDeployment ?ns ?name) (Deployments_Get cl ?ns ?name)
              (logln (Infof ''Delete'') s)"
  have g: "fst ?g = Inr live" "world (snd ?g) = w1"
    "calls (snd ?g) = calls s @ [GetDeployment ?ns ?name]"
    using get by (simp_all add: invoke_simps)
  let ?cp = "collectPods env c live (snd ?g)"
  from lst g(2) have lst': "Pods_List cl (Namespace live) (selectorSet (deployment c))
                              (world (snd ?g)) = (Inr podList, w2)"
    by simp
  have cp: "fst ?cp = Inr (filter (spec_owned env live) podList)" "world (snd ?cp) = w2"
    "calls (snd ?cp) = calls s @ [GetDeployment ?ns ?name,
                                  ListPods (Namespace live) (selectorSet (deployment c))]"
    using collectPods_result[OF cl lst', of env] g(3) by simp_all
  let ?d = "invoke (DeleteDeployment ?ns ?name) (Deployments_Delete cl ?ns ?name)
              (logln (Infof ''deleting'') (snd ?cp))"
  have d: "fst ?d = None" "world (snd ?d) = w3"
    "calls (snd ?d) = calls s @ [GetDeployment ?ns ?name,
                                 ListPods (Namespace live) (selectorSet (deployment c)),
                                 DeleteDeployment ?ns ?name]"
    using del cp(2,3) by (simp_all add: invoke_simps)
  let ?t = "logln (Infof ''deleting pods %v'')
              (if \<not> cascade then logln (Infof ''cascade not set, returning'') (snd ?d)
               else snd ?d)"
  have "Delete env c ctx cascade s =
          deletePods_loop cl ?ns (filter (spec_owned env live) podList) ?t"
    using cl g(1) cp(1) d(1)
    by (simp add: Delete_def Let_def case_prod_beta)
  moreover have "world ?t = w3" using d(2) by simp
  moreover have "calls ?t = calls s @ [GetDeployment ?ns ?name,
                                 ListPods (Namespace live) (selectorSet (deployment c)),
                                 DeleteDeployment ?ns ?name]"
    using d(3) by simp
  ultimately show ?thesis
    by (intro exI[of _ ?t] conjI)
qed

lemma spec_podDeleteAnswer_0:
  "spec_podDeleteAnswer cl ns (pod # rest) w 0 = fst (Pods_Delete cl ns (Name pod) w)"
  by (simp add: spec_podDeleteAnswer_def)

lemma spec_podDeleteAnswer_Suc:
  "spec_podDeleteAnswer cl ns (pod # rest) w (Suc i) =
     spec_podDeleteAnswer cl ns rest (snd (Pods_Delete cl ns (Name pod) w)) i"
  by (simp add: spec_podDeleteAnswer_def)

lemma deletePods_loop_all_succeed:
  "(\<forall>i < length pods. spec_podDeleteAnswer cl ns pods (world s) i = None) \<Longrightarrow>
     fst (deletePods_loop cl ns pods s) = None
     \<and> calls (snd (deletePods_loop cl ns pods s)) =
         calls s @ map (\<lambda>pod. DeletePod ns (Name pod)) pods
     \<and> world (snd (deletePods_loop cl ns pods s)) = last (spec_worlds cl ns pods (world s))"
proof (induction pods arbitrary: s)
  case Nil
  show ?case by simp
next
  case (Cons pod rest)
  let ?r = "invoke (DeletePod ns (Name pod)) (Pods_Delete cl ns (Name pod))
              (logln (Infof ''deleting pod %v'') s)"
  from Cons.prems have "spec_podDeleteAnswer cl ns (pod # rest) (world s) 0 = None"
    by simp
  then have first: "fst ?r = None"
    by (simp add: spec_podDeleteAnswer_0 invoke_simps)
  have w: "world (snd ?r) = snd (Pods_Delete cl ns (Name pod) (world s))"
    and c: "calls (snd ?r) = calls s @ [DeletePod ns (Name pod)]"
    by (simp_all add: invoke_simps)
  have "\<forall>i < length rest. spec_podDeleteAnswer cl ns rest (world (snd ?r)) i = None"
  proof (intro allI impI)
    fix i assume "i < length rest"
    then have "Suc i < length (pod # rest)" by simp
    with Cons.prems have "spec_podDeleteAnswer cl ns (pod # rest) (world s) (Suc i) = None"
      by blast
    then show "spec_podDeleteAnswer cl ns rest (world (snd ?r)) i = None"
      by (simp add: spec_podDeleteAnswer_Suc w)
  qed
  from Cons.IH[OF this]
  have ih: "fst (deletePods_loop cl ns rest (snd ?r)) = None"
    "calls (snd (deletePods_loop cl ns rest (snd ?r))) =
       calls (snd ?r) @ map (\<lambda>pod. DeletePod ns (Name pod)) rest"
    "world (snd (deletePods_loop cl ns rest (snd ?r))) =
       last (spec_worlds cl ns rest (world (snd ?r)))"
    by simp_all
  have res: "deletePods_loop cl ns (pod # rest) s = deletePods_loop cl ns rest (snd ?r)"
    using first by (simp add: deletePods_loop_Cons Let_def del: deletePods_loop.simps(2))
  have ne: "spec_worlds cl ns rest (snd (Pods_Delete cl ns (Name pod) (world s))) \<noteq> []"
    by (cases rest) simp_all
  show ?case
    unfolding res using ih c w ne by simp
qed

lemma deletePods_loop_first_failure:
  "i < length pods \<Longrightarrow>
   spec_podDeleteAnswer cl ns pods (world s) i = Some e \<Longrightarrow>
   (\<forall>j < i. spec_podDeleteAnswer cl ns pods (world s) j = None) \<Longrightarrow>
     fst (deletePods_loop cl ns pods s) = Some (Wrap e)
     \<and> calls (snd (deletePods_loop cl ns pods s)) =
         calls s @ map (\<lambda>pod. DeletePod ns (Name pod)) (take (Suc i) pods)
     \<and> world (snd (deletePods_loop cl ns pods s)) = spec_worlds cl ns pods (world s) ! Suc i"
proof (induction pods arbitrary: s i)
  case Nil
  then show ?case by simp
next
  case (Cons pod rest)
  let ?r = "invoke (DeletePod ns (Name pod)) (Pods_Delete cl ns (Name pod))
              (logln (Infof ''deleting pod %v'') s)"
  have w: "world (snd ?r) = snd (Pods_Delete cl ns (Name pod) (world s))"
    and c: "calls (snd ?r) = calls s @ [DeletePod ns (Name pod)]"
    by (simp_all add: invoke_simps)
  show ?case
  proof (cases i)
    case 0
    with Cons.prems(2) have first: "fst ?r = Some e"
      by (simp add: spec_podDeleteAnswer_0 invoke_simps)
    then have res: "deletePods_loop cl ns (pod # rest) s = (Some (Wrap e), snd ?r)"
      by (simp add: deletePods_loop_Cons Let_def del: deletePods_loop.simps(2))
    have "spec_worlds cl ns rest (snd (Pods_Delete cl ns (Name pod) (world s))) ! 0
            = snd (Pods_Delete cl ns (Name pod) (world s))"
      by (cases rest) simp_all
    then show ?thesis
      unfolding res using 0 c w by simp
  next
    case (Suc i')
    from Cons.prems(3) Suc have "spec_podDeleteAnswer cl ns (pod # rest) (world s) 0 = None"
      by simp
    then have first: "fst ?r = None"
      by (simp add: spec_podDeleteAnswer_0 invoke_simps)
    then have res: "deletePods_loop cl ns (pod # rest) s = deletePods_loop cl ns rest (snd ?r)"
      by (simp add: deletePods_loop_Cons Let_def del: deletePods_loop.simps(2))
    have a: "i' < length rest" using Cons.prems(1) Suc by simp
    have b: "spec_podDeleteAnswer cl ns rest (world (snd ?r)) i' = Some e"
      using Cons.prems(2) Suc by (simp add: spec_podDeleteAnswer_Suc w)
    have d: "\<forall>j < i'. spec_podDeleteAnswer cl ns rest (world (snd ?r)) j = None"
    proof (intro allI impI)
      fix j assume "j < i'"
      then have "Suc j < i" using Suc by simp
      with Cons.prems(3) have "spec_podDeleteAnswer cl ns (pod # rest) (world s) (Suc j) = None"
        by blast
      then show "spec_podDeleteAnswer cl ns rest (world (snd ?r)) j = None"
        by (simp add: spec_podDeleteAnswer_Suc w)
    qed
    from Cons.IH[OF a b d]
    have ih: "fst (deletePods_loop cl ns rest (snd ?r)) = Some (Wrap e)"
      "calls (snd (deletePods_loop cl ns rest (snd ?r))) =
         calls (snd ?r) @ map (\<lambda>pod. DeletePod ns (Name pod)) (take (Suc i') rest)"
      "world (snd (deletePods_loop cl ns rest (snd ?r))) =
         spec_worlds cl ns rest (world (snd ?r)) ! Suc i'"
      by simp_all
    show ?thesis
      unfolding res using ih c w Suc by simp
  qed
qed

lemma Delete_list_fails:
  assumes cl: "Client c = Some cl"
      and get: "Deployments_Get cl (Namespace (deployment c)) (Name (deployment c)) (world s)
                  = (Inr live, w1)"
      and lst: "Pods_List cl (Namespace live) (selectorSet (deployment c)) w1 = (Inl err, w2)"
  shows "fst (Delete env c ctx cascade s) = Some (Wrap (Wrap err))
         \<and> calls (snd (Delete env c ctx cascade s)) =
             calls s @ [GetDeployment (Namespace (deployment c)) (Name (deployment c)),
                        ListPods (Namespace live) (selectorSet (deployment c))]"
proof -
  let ?ns = "Namespace (deployment c)" and ?name = "Name (deployment c)"
  let ?g = "invoke (GetDeployment ?ns ?name) (Deployments_Get cl ?ns ?name)
              (logln (Infof ''Delete'') s)"
  have g: "fst ?g = Inr live" "world (snd ?g) = w1"
    "calls (snd ?g) = calls s @ [GetDeployment ?ns ?name]"
    using get by (simp_all add: invoke_simps)
  let ?cp = "collectPods env c live (snd ?g)"
  from lst g(2) have lst': "Pods_List cl (Namespace live) (selectorSet (deployment c))
                              (world (snd ?g)) = (Inl err, w2)"
    by simp
  have cp: "fst ?cp = Inl (Wrap err)"
    "calls (snd ?cp) = calls s @ [GetDeployment ?ns ?name,
                                  ListPods (Namespace live) (selectorSet (deployment c))]"
    using collectPods_result[OF cl lst', of env] g(3) by simp_all
  have "Delete env c ctx cascade s = (Some (Wrap (Wrap err)), snd ?cp)"
    using cl g(1) cp(1) by (simp add: Delete_def Let_def case_prod_beta)
  with cp(2) show ?thesis by simp
qed

lemma Delete_resource_delete_fails:
  assumes cl: "Client c = Some cl"
      and get: "Deployments_Get cl (Namespace (deployment c)) (Name (deployment c)) (world s)
                  = (Inr live, w1)"
      and lst: "Pods_List cl (Namespace live) (selectorSet (deployment c)) w1 = (Inr podList, w2)"
      and del: "Deployments_Delete cl (Namespace (deployment c)) (Name (deployment c)) w2
                  = (Some err, w3)"
  shows "fst (Delete env c ctx cascade s) = Some (Wrap err)
         \<and> calls (snd (Delete env c ctx cascade s)) =
             calls s @ [GetDeployment (Namespace (deployment c)) (Name (deployment c)),
                        ListPods (Namespace live) (selectorSet (deployment c)),
                        DeleteDeployment (Namespace (deployment c)) (Name (deployment c))]"
proof -
  let ?ns = "Namespace (deployment c)" and ?name = "Name (deployment c)"
  let ?g = "invoke (GetDeployment ?ns ?name) (Deployments_Get cl ?ns ?name)
              (logln (Infof ''Delete'') s)"
  have g: "fst ?g = Inr live" "world (snd ?g) = w1"
    "calls (snd ?g) = calls s @ [GetDeployment ?ns ?name]"
    using get by (simp_all add: invoke_simps)
  let ?cp = "collectPods env c live (snd ?g)"
  from lst g(2) have lst': "Pods_List cl (Namespace live) (selectorSet (deployment c))
                              (world (snd ?g)) = (Inr podList, w2)"
    by simp
  have cp: "fst ?cp = Inr (filter (spec_owned env live) podList)" "world (snd ?cp) = w2"
    "calls (snd ?cp) = calls s @ [GetDeployment ?ns ?name,
                                  ListPods (Namespace live) (selectorSet (deployment c))]"
    using collectPods_result[OF cl lst', of env] g(3) by simp_all
  let ?d = "invoke (DeleteDeployment ?ns ?name) (Deployments_Delete cl ?ns ?name)
              (logln (Infof ''deleting'') (snd ?cp))"
  have d: "fst ?d = Some err"
    "calls (snd ?d) = calls s @ [GetDeployment ?ns ?name,
                                 ListPods (Namespace live) (selectorSet (deployment c)),
                                 DeleteDeployment ?ns ?name]"
    using del cp(2,3) by (simp_all add: invoke_simps)
  have "Delete env c ctx cascade s = (Some (Wrap err), snd ?d)"
    using cl g(1) cp(1) d(1) by (simp add: Delete_def Let_def case_prod_beta)
  with d(2) show ?thesis by simp
qed

lemma Delete_pods_in_turn:
  assumes cl: "Client c = Some cl"
      and get: "Deployments_Get cl (Namespace (deployment c)) (Name (deployment c)) (world s)
                  = (Inr live, w1)"
      and lst: "Pods_List cl (Namespace live) (selectorSet (deployment c)) w1 = (Inr podList, w2)"
      and del: "Deployments_Delete cl (Namespace (deployment c)) (Name (deployment c)) w2
                  = (None, w3)"
  shows "(\<forall>i < length (filter (spec_owned env live) podList).
            spec_podDeleteAnswer cl (Namespace (deployment c))
              (filter (spec_owned env live) podList) w3 i = None)
         \<longrightarrow> fst (Delete env c ctx cascade s) = None
             \<and> calls (snd (Delete env c ctx cascade s)) =
                 calls s @ [GetDeployment (Namespace (deployment c)) (Name (deployment c)),
                            ListPods (Namespace live) (selectorSet (deployment c)),
                            DeleteDeployment (Namespace (deployment c)) (Name (deployment c))]
                   @ map (\<lambda>pod. DeletePod (Namespace (deployment c)) (Name pod))
                       (filter (spec_owned env live) podList)"
    and "\<forall>i e. i < length (filter (spec_owned env live) podList)
            \<and> spec_podDeleteAnswer cl (Namespace (deployment c))
                 (filter (spec_owned env live) podList) w3 i = Some e
            \<and> (\<forall>j < i. spec_podDeleteAnswer cl (Namespace (deployment c))
                           (filter (spec_owned env live) podList) w3 j = None)
         \<longrightarrow> fst (Delete env c ctx cascade s) = Some (Wrap e)
             \<and> calls (snd (Delete env c ctx cascade s)) =
                 calls s @ [GetDeployment (Namespace (deployment c)) (Name (deployment c)),
                            ListPods (Namespace live) (selectorSet (deployment c)),
                            DeleteDeployment (Namespace (deployment c)) (Name (deployment c))]
                   @ map (\<lambda>pod. DeletePod (Namespace (deployment c)) (Name pod))
                       (take (Suc i) (filter (spec_owned env live) podList))"
proof -
  let ?ns = "Namespace (deployment c)"
  let ?owned = "filter (spec_owned env live) podList"
  from Delete_reaches_pods[OF cl get lst del, of env ctx cascade]
  obtain t where t: "world t = w3
           \<and> calls t = calls s @ [GetDeployment ?ns (Name (deployment c)),
                                  ListPods (Namespace live) (selectorSet (deployment c)),
                                  DeleteDeployment ?ns (Name (deployment c))]
           \<and> Delete env c ctx cascade s = deletePods_loop cl ?ns ?owned t"
    ..
  note tw = t[THEN conjunct1] and tc = t[THEN conjunct2, THEN conjunct1]
    and td = t[THEN conjunct2, THEN conjunct2]
  show "(\<forall>i < length ?owned. spec_podDeleteAnswer cl ?ns ?owned w3 i = None)
         \<longrightarrow> fst (Delete env c ctx cascade s) = None
             \<and> calls (snd (Delete env c ctx cascade s)) =
                 calls s @ [GetDeployment ?ns (Name (deployment c)),
                            ListPods (Namespace live) (selectorSet (deployment c)),
                            DeleteDeployment ?ns (Name (deployment c))]
                   @ map (\<lambda>pod. DeletePod ?ns (Name pod)) ?owned"
  proof
    assume "\<forall>i < length ?owned. spec_podDeleteAnswer cl ?ns ?owned w3 i = None"
    then have "\<forall>i < length ?owned. spec_podDeleteAnswer cl ?ns ?owned (world t) i = None"
      by (simp only: tw)
    from deletePods_loop_all_succeed[OF this]
    show "fst (Delete env c ctx cascade s) = None
             \<and> calls (snd (Delete env c ctx cascade s)) =
                 calls s @ [GetDeployment ?ns (Name (deployment c)),
                            ListPods (Namespace live) (selectorSet (deployment c)),
                            DeleteDeployment ?ns (Name (deployment c))]
                   @ map (\<lambda>pod. DeletePod ?ns (Name pod)) ?owned"
      unfolding td tc by simp
  qed
  show "\<forall>i e. i < length ?owned
            \<and> spec_podDeleteAnswer cl ?ns ?owned w3 i = Some e
            \<and> (\<forall>j < i. spec_podDeleteAnswer cl ?ns ?owned w3 j = None)
         \<longrightarrow> fst (Delete env c ctx cascade s) = Some (Wrap e)
             \<and> calls (snd (Delete env c ctx cascade s)) =
                 calls s @ [GetDeployment ?ns (Name (deployment c)),
                            ListPods (Namespace live) (selectorSet (deployment c)),
                            DeleteDeployment ?ns (Name (deployment c))]
                   @ map (\<lambda>pod. DeletePod ?ns (Name pod)) (take (Suc i) ?owned)"
  proof (intro allI impI)
    fix i e
    assume h: "i < length ?owned
            \<and> spec_podDeleteAnswer cl ?ns ?owned w3 i = Some e
            \<and> (\<forall>j < i. spec_podDeleteAnswer cl ?ns ?owned w3 j = None)"
    have a: "i < length ?owned" using h by simp
    have b: "spec_podDeleteAnswer cl ?ns ?owned (world t) i = Some e"
      using h by (simp add: tw)
    have d: "\<forall>j < i. spec_podDeleteAnswer cl ?ns ?owned (world t) j = None"
      using h by (simp add: tw)
    from deletePods_loop_first_failure[OF a b d]
    show "fst (Delete env c ctx cascade s) = Some (Wrap e)
             \<and> calls (snd (Delete env c ctx cascade s)) =
                 calls s @ [GetDeployment ?ns (Name (deployment c)),
                            ListPods (Namespace live) (selectorSet (deployment c)),
                            DeleteDeployment ?ns (Name (deployment c))]
                   @ map (\<lambda>pod. DeletePod ?ns (Name pod)) (take (Suc i) ?owned)"
      unfolding td tc by simp
  qed
qed

lemma example_owned:
  "filter (spec_owned example_env (example_document ''Deployment'' ''prod'' ''uid-1'')) example_pods
     = [example_pod ''web-1'' (Some ''Deployment/uid-1'') PodRunning,
        example_pod ''web-6'' (Some ''Deployment/uid-1'') PodRunning,
        example_pod ''web-7'' (Some ''Deployment/uid-1'') PodRunning]"
  by (simp add: example_defs spec_owned_def ParseSerializedReference_def)

lemma example_Delete:
  "fst (Delete example_env (example_control ''web'') example_ctx cascade example_state)
     = Some (Wrap (StatusError 500 ''internal error''))"
  "calls (snd (Delete example_env (example_control ''web'') example_ctx cascade example_state))
     = [GetDeployment ''prod'' ''web'', ListPods ''prod'' [''app'' \<mapsto> ''web''],
        DeleteDeployment ''prod'' ''web'', DeletePod ''prod'' ''web-1'',
        DeletePod ''prod'' ''web-6'']"
  by (simp_all add: Delete_def collectPods_def invoke_def logln_def Let_def selectorSet_def
        ParseSerializedReference_def example_defs)

lemma example_Delete_logged:
  "logged (snd (Delete example_env (example_control ''web'') example_ctx cascade example_state))
     = [Infof ''Delete'', Infof ''collectPods(%v) -> %v'',
        Infof ''collectPods(%v, %v, %v)'', Infof ''found pod created by this RC: %v'',
        Infof ''collectPods(%v, %v, %v)'',
        Warningf (Wrap (DecodeError ''not a reference'')),
        Infof ''collectPods(%v, %v, %v)'',
        Infof ''collectPods(%v, %v, %v)'', Infof ''found pod created by this RC: %v'',
        Infof ''collectPods(%v, %v, %v)'', Infof ''found pod created by this RC: %v'',
        Infof ''deleting'']
       @ (if cascade then [] else [Infof ''cascade not set, returning''])
       @ [Infof ''deleting pods %v'', Infof ''deleting pod %v'', Infof ''deleting pod %v'']"
  by (simp add: Delete_def collectPods_def invoke_def logln_def Let_def selectorSet_def
        ParseSerializedReference_def example_defs)

text \<open>
  C5: \<^verbatim>\<open>Delete\<close> first gets the live resource, and a failed get ends it with that error
  and no other call. Otherwise it lists the pods and resolves the owned ones, then deletes
  the resource, then deletes the resolved pods in their order: the trace is the get, the
  list, the resource delete and the pod deletes of a prefix of the owned pods. When every
  pod delete succeeds, \<^verbatim>\<open>Delete\<close> succeeds and has deleted all of them. When the delete of
  the pod at index \<open>i\<close> is the first that fails, \<^verbatim>\<open>Delete\<close> returns that error (wrapped) at
  once: the resource delete has been issued, the pods up to \<open>i\<close> have been deleted in turn,
  and no call is issued for the pods after it. A failed list ends \<^verbatim>\<open>Delete\<close> before the
  resource delete, and a failed resource delete ends it before any pod delete.
\<close>

theorem Delete_ordering:
  assumes "Client c = Some cl"
      and "Deployments_Get cl (Namespace (deployment c)) (Name (deployment c)) (world s) = (g, w1)"
  shows "(\<forall>err. g = Inl err \<longrightarrow>
            fst (Delete env c ctx cascade s) = Some (Wrap err)
            \<and> calls (snd (Delete env c ctx cascade s)) =
                calls s @ [GetDeployment (Namespace (deployment c)) (Name (deployment c))])
         \<and> (\<forall>live podList w2 w3.
              g = Inr live
              \<and> Pods_List cl (Namespace live) (selectorSet (deployment c)) w1 = (Inr podList, w2)
              \<and> Deployments_Delete cl (Namespace (deployment c)) (Name (deployment c)) w2
                  = (None, w3)
              \<longrightarrow>
              (\<exists>k \<le> length (filter (spec_owned env live) podList).
                 calls (snd (Delete env c ctx cascade s)) =
                   calls s @ [GetDeployment (Namespace (deployment c)) (Name (deployment c)),
                              ListPods (Namespace live) (selectorSet (deployment c)),
                              DeleteDeployment (Namespace (deployment c)) (Name (deployment c))]
                     @ map (\<lambda>pod. DeletePod (Namespace (deployment c)) (Name pod))
                         (take k (filter (spec_owned env live) podList))
                 \<and> (fst (Delete env c ctx cascade s) = None
                      \<longrightarrow> k = length (filter (spec_owned env live) podList))
                 \<and> (\<forall>err. fst (Delete env c ctx cascade s) = Some err \<longrightarrow>
                       0 < k
                       \<and> (\<exists>e w. err = Wrap e
                             \<and> fst (Pods_Delete cl (Namespace (deployment c))
                                      (Name (filter (spec_owned env live) podList ! (k - 1))) w)
                                 = Some e))))
         \<and> (\<forall>live podList w2 w3.
              g = Inr live
              \<and> Pods_List cl (Namespace live) (selectorSet (deployment c)) w1 = (Inr podList, w2)
              \<and> Deployments_Delete cl (Namespace (deployment c)) (Name (deployment c)) w2
                  = (None, w3)
              \<and> (\<forall>i < length (filter (spec_owned env live) podList).
                    spec_podDeleteAnswer cl (Namespace (deployment c))
                      (filter (spec_owned env live) podList) w3 i = None)
              \<longrightarrow>
              fst (Delete env c ctx cascade s) = None
              \<and> calls (snd (Delete env c ctx cascade s)) =
                  calls s @ [GetDeployment (Namespace (deployment c)) (Name (deployment c)),
                             ListPods (Namespace live) (selectorSet (deployment c)),
                             DeleteDeployment (Namespace (deployment c)) (Name (deployment c))]
                    @ map (\<lambda>pod. DeletePod (Namespace (deployment c)) (Name pod))
                        (filter (spec_owned env live) podList))
         \<and> (\<forall>live podList w2 w3 i e.
              g = Inr live
              \<and> Pods_List cl (Namespace live) (selectorSet (deployment c)) w1 = (Inr podList, w2)
              \<and> Deployments_Delete cl (Namespace (deployment c)) (Name (deployment c)) w2
                  = (None, w3)
              \<and> i < length (filter (spec_owned env live) podList)
              \<and> spec_podDeleteAnswer cl (Namespace (deployment c))
                   (filter (spec_owned env live) podList) w3 i = Some e
              \<and> (\<forall>j < i. spec_podDeleteAnswer cl (Namespace (deployment c))
                             (filter (spec_owned env live) podList) w3 j = None)
              \<longrightarrow>
              fst (Delete env c ctx cascade s) = Some (Wrap e)
              \<and> calls (snd (Delete env c ctx cascade s)) =
                  calls s @ [GetDeployment (Namespace (deployment c)) (Name (deployment c)),
                             ListPods (Namespace live) (selectorSet (deployment c)),
                             DeleteDeployment (Namespace (deployment c)) (Name (deployment c))]
                    @ map (\<lambda>pod. DeletePod (Namespace (deployment c)) (Name pod))
                        (take (Suc i) (filter (spec_owned env live) podList)))
         \<and> (\<forall>live err w2.
              g = Inr live
              \<and> Pods_List cl (Namespace live) (selectorSet (deployment c)) w1 = (Inl err, w2)
              \<longrightarrow>
              fst (Delete env c ctx cascade s) = Some (Wrap (Wrap err))
              \<and> calls (snd (Delete env c ctx cascade s)) =
                  calls s @ [GetDeployment (Namespace (deployment c)) (Name (deployment c)),
                             ListPods (Namespace live) (selectorSet (deployment c))])
         \<and> (\<forall>live podList w2 err w3.
              g = Inr live
              \<and> Pods_List cl (Namespace live) (selectorSet (deployment c)) w1 = (Inr podList, w2)
              \<and> Deployments_Delete cl (Namespace (deployment c)) (Name (deployment c)) w2
                  = (Some err, w3)
              \<longrightarrow>
              fst (Delete env c ctx cascade s) = Some (Wrap err)
              \<and> calls (snd (Delete env c ctx cascade s)) =
                  calls s @ [GetDeployment (Namespace (deployment c)) (Name (deployment c)),
                             ListPods (Namespace live) (selectorSet (deployment c)),
                             DeleteDeployment (Namespace (deployment c)) (Name (deployment c))])"
proof (intro conjI)
  show "\<forall>err. g = Inl err \<longrightarrow>
            fst (Delete env c ctx cascade s) = Some (Wrap err)
            \<and> calls (snd (Delete env c ctx cascade s)) =
                calls s @ [GetDeployment (Namespace (deployment c)) (Name (deployment c))]"
    using assms Delete_get_fails[of c cl s _ w1 env ctx cascade] by simp
next
  show "\<forall>live podList w2 w3.
              g = Inr live
              \<and> Pods_List cl (Namespace live) (selectorSet (deployment c)) w1 = (Inr podList, w2)
              \<and> Deployments_Delete cl (Namespace (deployment c)) (Name (deployment c)) w2
                  = (None, w3)
              \<longrightarrow>
              (\<exists>k \<le> length (filter (spec_owned env live) podList).
                 calls (snd (Delete env c ctx cascade s)) =
                   calls s @ [GetDeployment (Namespace (deployment c)) (Name (deployment c)),
                              ListPods (Namespace live) (selectorSet (deployment c)),
                              DeleteDeployment (Namespace (deployment c)) (Name (deployment c))]
                     @ map (\<lambda>pod. DeletePod (Namespace (deployment c)) (Name pod))
                         (take k (filter (spec_owned env live) podList))
                 \<and> (fst (Delete env c ctx cascade s) = None
                      \<longrightarrow> k = length (filter (spec_owned env live) podList))
                 \<and> (\<forall>err. fst (Delete env c ctx cascade s) = Some err \<longrightarrow>
                       0 < k
                       \<and> (\<exists>e w. err = Wrap e
                             \<and> fst (Pods_Delete cl (Namespace (deployment c))
                                      (Name (filter (spec_owned env live) podList ! (k - 1))) w)
                                 = Some e)))"
  proof (intro allI impI)
    fix live podList w2 w3
    assume h: "g = Inr live
              \<and> Pods_List cl (Namespace live) (selectorSet (deployment c)) w1 = (Inr podList, w2)
              \<and> Deployments_Delete cl (Namespace (deployment c)) (Name (deployment c)) w2
                  = (None, w3)"
    with assms(2) have get: "Deployments_Get cl (Namespace (deployment c)) (Name (deployment c))
                             (world s) = (Inr live, w1)"
      by simp
    from Delete_reaches_pods[OF assms(1) get h[THEN conjunct2, THEN conjunct1]
           h[THEN conjunct2, THEN conjunct2], of env ctx cascade]
    obtain t where t: "world t = w3
           \<and> calls t = calls s @ [GetDeployment (Namespace (deployment c)) (Name (deployment c)),
                                  ListPods (Namespace live) (selectorSet (deployment c)),
                                  DeleteDeployment (Namespace (deployment c)) (Name (deployment c))]
           \<and> Delete env c ctx cascade s =
               deletePods_loop cl (Namespace (deployment c))
                 (filter (spec_owned env live) podList) t"
      ..
    show "\<exists>k \<le> length (filter (spec_owned env live) podList).
                 calls (snd (Delete env c ctx cascade s)) =
                   calls s @ [GetDeployment (Namespace (deployment c)) (Name (deployment c)),
                              ListPods (Namespace live) (selectorSet (deployment c)),
                              DeleteDeployment (Namespace (deployment c)) (Name (deployment c))]
                     @ map (\<lambda>pod. DeletePod (Namespace (deployment c)) (Name pod))
                         (take k (filter (spec_owned env live) podList))
                 \<and> (fst (Delete env c ctx cascade s) = None
                      \<longrightarrow> k = length (filter (spec_owned env live) podList))
                 \<and> (\<forall>err. fst (Delete env c ctx cascade s) = Some err \<longrightarrow>
                       0 < k
                       \<and> (\<exists>e w. err = Wrap e
                             \<and> fst (Pods_Delete cl (Namespace (deployment c))
                                      (Name (filter (spec_owned env live) podList ! (k - 1))) w)
                                 = Some e))"
      using deletePods_loop_trace[of "filter (spec_owned env live) podList" cl
              "Namespace (deployment c)" t]
      unfolding t[THEN conjunct2, THEN conjunct2] t[THEN conjunct2, THEN conjunct1]
      by (simp only: append_assoc)
  qed
next
  show "\<forall>live podList w2 w3.
              g = Inr live
              \<and> Pods_List cl (Namespace live) (selectorSet (deployment c)) w1 = (Inr podList, w2)
              \<and> Deployments_Delete cl (Namespace (deployment c)) (Name (deployment c)) w2
                  = (None, w3)
              \<and> (\<forall>i < length (filter (spec_owned env live) podList).
                    spec_podDeleteAnswer cl (Namespace (deployment c))
                      (filter (spec_owned env live) podList) w3 i = None)
              \<longrightarrow>
              fst (Delete env c ctx cascade s) = None
              \<and> calls (snd (Delete env c ctx cascade s)) =
                  calls s @ [GetDeployment (Namespace (deployment c)) (Name (deployment c)),
                             ListPods (Namespace live) (selectorSet (deployment c)),
                             DeleteDeployment (Namespace (deployment c)) (Name (deployment c))]
                    @ map (\<lambda>pod. DeletePod (Namespace (deployment c)) (Name pod))
                        (filter (spec_owned env live) podList)"
  proof (intro allI impI)
    fix live podList w2 w3
    assume h: "g = Inr live
              \<and> Pods_List cl (Namespace live) (selectorSet (deployment c)) w1 = (Inr podList, w2)
              \<and> Deployments_Delete cl (Namespace (deployment c)) (Name (deployment c)) w2
                  = (None, w3)
              \<and> (\<forall>i < length (filter (spec_owned env live) podList).
                    spec_podDeleteAnswer cl (Namespace (deployment c))
                      (filter (spec_owned env live) podList) w3 i = None)"
    with assms(2) have get: "Deployments_Get cl (Namespace (deployment c)) (Name (deployment c))
                             (world s) = (Inr live, w1)"
      by simp
    from Delete_pods_in_turn(1)[OF assms(1) get h[THEN conjunct2, THEN conjunct1]
           h[THEN conjunct2, THEN conjunct2, THEN conjunct1], of env ctx cascade]
         h[THEN conjunct2, THEN conjunct2, THEN conjunct2]
    show "fst (Delete env c ctx cascade s) = None
              \<and> calls (snd (Delete env c ctx cascade s)) =
                  calls s @ [GetDeployment (Namespace (deployment c)) (Name (deployment c)),
                             ListPods (Namespace live) (selectorSet (deployment c)),
                             DeleteDeployment (Namespace (deployment c)) (Name (deployment c))]
                    @ map (\<lambda>pod. DeletePod (Namespace (deployment c)) (Name pod))
                        (filter (spec_owned env live) podList)"
      by (rule mp)
  qed
next
  show "\<forall>live podList w2 w3 i e.
              g = Inr live
              \<and> Pods_List cl (Namespace live) (selectorSet (deployment c)) w1 = (Inr podList, w2)
              \<and> Deployments_Delete cl (Namespace (deployment c)) (Name (deployment c)) w2
                  = (None, w3)
              \<and> i < length (filter (spec_owned env live) podList)
              \<and> spec_podDeleteAnswer cl (Namespace (deployment c))
                   (filter (spec_owned env live) podList) w3 i = Some e
              \<and> (\<forall>j < i. spec_podDeleteAnswer cl (Namespace (deployment c))
                             (filter (spec_owned env live) podList) w3 j = None)
              \<longrightarrow>
              fst (Delete env c ctx cascade s) = Some (Wrap e)
              \<and> calls (snd (Delete env c ctx cascade s)) =
                  calls s @ [GetDeployment (Namespace (deployment c)) (Name (deployment c)),
                             ListPods (Namespace live) (selectorSet (deployment c)),
                             DeleteDeployment (Namespace (deployment c)) (Name (deployment c))]
                    @ map (\<lambda>pod. DeletePod (Namespace (deployment c)) (Name pod))
                        (take (Suc i) (filter (spec_owned env live) podList))"
  proof (intro allI impI)
    fix live podList w2 w3 i e
    assume h: "g = Inr live
              \<and> Pods_List cl (Namespace live) (selectorSet (deployment c)) w1 = (Inr podList, w2)
              \<and> Deployments_Delete cl (Namespace (deployment c)) (Name (deployment c)) w2
                  = (None, w3)
              \<and> i < length (filter (spec_owned env live) podList)
              \<and> spec_podDeleteAnswer cl (Namespace (deployment c))
                   (filter (spec_owned env live) podList) w3 i = Some e
              \<and> (\<forall>j < i. spec_podDeleteAnswer cl (Namespace (deployment c))
                             (filter (spec_owned env live) podList) w3 j = None)"
    with assms(2) have get: "Deployments_Get cl (Namespace (deployment c)) (Name (deployment c))
                             (world s) = (Inr live, w1)"
      by simp
    from Delete_pods_in_turn(2)[OF assms(1) get h[THEN conjunct2, THEN conjunct1]
           h[THEN conjunct2, THEN conjunct2, THEN conjunct1], of env ctx cascade,
           THEN spec, THEN spec, of i e]
         h[THEN conjunct2, THEN conjunct2, THEN conjunct2]
    show "fst (Delete env c ctx cascade s) = Some (Wrap e)
              \<and> calls (snd (Delete env c ctx cascade s)) =
                  calls s @ [GetDeployment (Namespace (deployment c)) (Name (deployment c)),
                             ListPods (Namespace live) (selectorSet (deployment c)),
                             DeleteDeployment (Namespace (deployment c)) (Name (deployment c))]
                    @ map (\<lambda>pod. DeletePod (Namespace (deployment c)) (Name pod))
                        (take (Suc i) (filter (spec_owned env live) podList))"
      by (rule mp)
  qed
next
  show "\<forall>live err w2.
              g = Inr live
              \<and> Pods_List cl (Namespace live) (selectorSet (deployment c)) w1 = (Inl err, w2)
              \<longrightarrow>
              fst (Delete env c ctx cascade s) = Some (Wrap (Wrap err))
              \<and> calls (snd (Delete env c ctx cascade s)) =
                  calls s @ [GetDeployment (Namespace (deployment c)) (Name (deployment c)),
                             ListPods (Namespace live) (selectorSet (deployment c))]"
  proof (intro allI impI)
    fix live err w2
    assume h: "g = Inr live
              \<and> Pods_List cl (Namespace live) (selectorSet (deployment c)) w1 = (Inl err, w2)"
    with assms(2) have get: "Deployments_Get cl (Namespace (deployment c)) (Name (deployment c))
                             (world s) = (Inr live, w1)"
      by simp
    show "fst (Delete env c ctx cascade s) = Some (Wrap (Wrap err))
              \<and> calls (snd (Delete env c ctx cascade s)) =
                  calls s @ [GetDeployment (Namespace (deployment c)) (Name (deployment c)),
                             ListPods (Namespace live) (selectorSet (deployment c))]"
      by (rule Delete_list_fails[OF assms(1) get h[THEN conjunct2]])
  qed
next
  show "\<forall>live podList w2 err w3.
              g = Inr live
              \<and> Pods_List cl (Namespace live) (selectorSet (deployment c)) w1 = (Inr podList, w2)
              \<and> Deployments_Delete cl (Namespace (deployment c)) (Name (deployment c)) w2
                  = (Some err, w3)
              \<longrightarrow>
              fst (Delete env c ctx cascade s) = Some (Wrap err)
              \<and> calls (snd (Delete env c ctx cascade s)) =
                  calls s @ [GetDeployment (Namespace (deployment c)) (Name (deployment c)),
                             ListPods (Namespace live) (selectorSet (deployment c)),
                             DeleteDeployment (Namespace (deployment c)) (Name (deployment c))]"
  proof (intro allI impI)
    fix live podList w2 err w3
    assume h: "g = Inr live
              \<and> Pods_List cl (Namespace live) (selectorSet (deployment c)) w1 = (Inr podList, w2)
              \<and> Deployments_Delete cl (Namespace (deployment c)) (Name (deployment c)) w2
                  = (Some err, w3)"
    with assms(2) have get: "Deployments_Get cl (Namespace (deployment c)) (Name (deployment c))
                             (world s) = (Inr live, w1)"
      by simp
    show "fst (Delete env c ctx cascade s) = Some (Wrap err)
              \<and> calls (snd (Delete env c ctx cascade s)) =
                  calls s @ [GetDeployment (Namespace (deployment c)) (Name (deployment c)),
                             ListPods (Namespace live) (selectorSet (deployment c)),
                             DeleteDeployment (Namespace (deployment c)) (Name (deployment c))]"
      by (rule Delete_resource_delete_fails[OF assms(1) get h[THEN conjunct2, THEN conjunct1]
            h[THEN conjunct2, THEN conjunct2]])
  qed
qed

lemma example_owned_starting:
  "filter (spec_owned example_env (example_document ''Deployment'' ''prod'' ''uid-0'')) example_pods
     = [example_pod ''web-2'' (Some ''Deployment/uid-0'') PodPending]"
  by (simp add: example_defs spec_owned_def ParseSerializedReference_def)

lemma example_podDeleteAnswers:
  "spec_podDeleteAnswer example_client ''prod''
     [example_pod ''web-1'' (Some ''Deployment/uid-1'') PodRunning,
      example_pod ''web-6'' (Some ''Deployment/uid-1'') PodRunning,
      example_pod ''web-7'' (Some ''Deployment/uid-1'') PodRunning] 3 0 = None"
  "spec_podDeleteAnswer example_client ''prod''
     [example_pod ''web-1'' (Some ''Deployment/uid-1'') PodRunning,
      example_pod ''web-6'' (Some ''Deployment/uid-1'') PodRunning,
      example_pod ''web-7'' (Some ''Deployment/uid-1'') PodRunning] 3 1
     = Some (StatusError 500 ''internal error'')"
  "spec_podDeleteAnswer example_client ''prod''
     [example_pod ''web-2'' (Some ''Deployment/uid-0'') PodPending] 3 0 = None"
  by (simp_all add: spec_podDeleteAnswer_def example_client_def example_pod_def)

theorem Delete_ordering_witness:
  "Client (example_control ''web'') = Some example_client
   \<and> fst (Deployments_Get example_client ''prod'' ''web'' 0)
       = Inr (example_document ''Deployment'' ''prod'' ''uid-1'')
   \<and> fst (Pods_List example_client ''prod'' [''app'' \<mapsto> ''web''] 1) = Inr example_pods
   \<and> fst (Deployments_Delete example_client ''prod'' ''web'' 2) = None
   \<and> fst (Pods_Delete example_client ''prod'' ''web-6'' 4) = Some (StatusError 500 ''internal error'')
   \<and> (\<exists>k \<le> 3.
         calls (snd (Delete example_env (example_control ''web'') example_ctx True example_state))
           = [GetDeployment ''prod'' ''web'', ListPods ''prod'' [''app'' \<mapsto> ''web''],
              DeleteDeployment ''prod'' ''web'']
             @ map (\<lambda>pod. DeletePod ''prod'' (Name pod))
                 (take k [example_pod ''web-1'' (Some ''Deployment/uid-1'') PodRunning,
                          example_pod ''web-6'' (Some ''Deployment/uid-1'') PodRunning,
                          example_pod ''web-7'' (Some ''Deployment/uid-1'') PodRunning]))
   \<and> spec_podDeleteAnswer example_client ''prod''
        [example_pod ''web-1'' (Some ''Deployment/uid-1'') PodRunning,
         example_pod ''web-6'' (Some ''Deployment/uid-1'') PodRunning,
         example_pod ''web-7'' (Some ''Deployment/uid-1'') PodRunning] 3 0 = None
   \<and> spec_podDeleteAnswer example_client ''prod''
        [example_pod ''web-1'' (Some ''Deployment/uid-1'') PodRunning,
         example_pod ''web-6'' (Some ''Deployment/uid-1'') PodRunning,
         example_pod ''web-7'' (Some ''Deployment/uid-1'') PodRunning] 3 1
       = Some (StatusError 500 ''internal error'')
   \<and> calls (snd (Delete example_env (example_control ''web'') example_ctx True example_state))
       = [GetDeployment ''prod'' ''web'', ListPods ''prod'' [''app'' \<mapsto> ''web''],
          DeleteDeployment ''prod'' ''web'', DeletePod ''prod'' ''web-1'',
          DeletePod ''prod'' ''web-6'']
   \<and> fst (Delete example_env (example_control ''web'') example_ctx True example_state)
       = Some (Wrap (StatusError 500 ''internal error''))
   \<and> spec_podDeleteAnswer example_client ''prod''
        [example_pod ''web-2'' (Some ''Deployment/uid-0'') PodPending] 3 0 = None
   \<and> calls (snd (Delete example_env (example_control ''starting'') example_ctx True
                    example_state))
       = [GetDeployment ''prod'' ''starting'', ListPods ''prod'' [''app'' \<mapsto> ''web''],
          DeleteDeployment ''prod'' ''starting'', DeletePod ''prod'' ''web-2'']
   \<and> fst (Delete example_env (example_control ''starting'') example_ctx True example_state)
       = None"
proof -
  let ?c = "example_control ''web''"
  let ?live = "example_document ''Deployment'' ''prod'' ''uid-1''"
  let ?D = "Delete example_env ?c example_ctx True example_state"
  let ?c' = "example_control ''starting''"
  let ?live' = "example_document ''Deployment'' ''prod'' ''uid-0''"
  let ?D' = "Delete example_env ?c' example_ctx True example_state"
  have get: "Deployments_Get example_client (Namespace (deployment ?c)) (Name (deployment ?c))
               (world example_state) = (Inr ?live, 1)"
    by (simp add: example_Get)
  have get': "Deployments_Get example_client (Namespace (deployment ?c')) (Name (deployment ?c'))
               (world example_state) = (Inr ?live', 1)"
    by (simp add: example_Get)
  have ids: "Namespace (deployment ?c) = ''prod''" "Name (deployment ?c) = ''web''"
    "Namespace ?live = ''prod''" "selectorSet (deployment ?c) = [''app'' \<mapsto> ''web'']"
    "calls example_state = []"
    "Namespace (deployment ?c') = ''prod''" "Name (deployment ?c') = ''starting''"
    "Namespace ?live' = ''prod''" "selectorSet (deployment ?c') = [''app'' \<mapsto> ''web'']"
    by (simp_all add: example_control_def example_document_def example_state_def selectorSet_def)
  have names: "\<And>n a p. Name (example_pod n a p) = n"
    by (simp add: example_pod_def)
  have lst: "Pods_List example_client (Namespace ?live) (selectorSet (deployment ?c)) 1
               = (Inr example_pods, 2)"
    and lst': "Pods_List example_client (Namespace ?live') (selectorSet (deployment ?c')) 1
               = (Inr example_pods, 2)"
    by (simp_all add: example_client_def)
  have del: "Deployments_Delete example_client (Namespace (deployment ?c)) (Name (deployment ?c)) 2
               = (None, 3)"
    and del': "Deployments_Delete example_client (Namespace (deployment ?c'))
                 (Name (deployment ?c')) 2 = (None, 3)"
    by (simp_all add: example_client_def)
  note T = Delete_ordering[OF example_Client get, of example_env example_ctx True]
  note T' = Delete_ordering[OF example_Client get', of example_env example_ctx True]
  from T[THEN conjunct2, THEN conjunct1, rule_format, of ?live example_pods 2 3] lst del
  obtain k where k: "k \<le> length (filter (spec_owned example_env ?live) example_pods)
      \<and> calls (snd ?D) =
          calls example_state @ [GetDeployment (Namespace (deployment ?c)) (Name (deployment ?c)),
                     ListPods (Namespace ?live) (selectorSet (deployment ?c)),
                     DeleteDeployment (Namespace (deployment ?c)) (Name (deployment ?c))]
            @ map (\<lambda>pod. DeletePod (Namespace (deployment ?c)) (Name pod))
                (take k (filter (spec_owned example_env ?live) example_pods))"
    by blast
  then have 1: "\<exists>k \<le> 3.
         calls (snd ?D)
           = [GetDeployment ''prod'' ''web'', ListPods ''prod'' [''app'' \<mapsto> ''web''],
              DeleteDeployment ''prod'' ''web'']
             @ map (\<lambda>pod. DeletePod ''prod'' (Name pod))
                 (take k [example_pod ''web-1'' (Some ''Deployment/uid-1'') PodRunning,
                          example_pod ''web-6'' (Some ''Deployment/uid-1'') PodRunning,
                          example_pod ''web-7'' (Some ''Deployment/uid-1'') PodRunning])"
    unfolding ids example_owned by (intro exI[of _ k]) simp
  have 2: "fst (Deployments_Get example_client ''prod'' ''web'' 0) = Inr ?live"
    "fst (Pods_List example_client ''prod'' [''app'' \<mapsto> ''web''] 1) = Inr example_pods"
    "fst (Deployments_Delete example_client ''prod'' ''web'' 2) = None"
    "fst (Pods_Delete example_client ''prod'' ''web-6'' 4) = Some (StatusError 500 ''internal error'')"
    by (simp_all add: example_client_def)
  have prem: "Inr ?live = Inr ?live
      \<and> Pods_List example_client (Namespace ?live) (selectorSet (deployment ?c)) 1
          = (Inr example_pods, 2)
      \<and> Deployments_Delete example_client (Namespace (deployment ?c)) (Name (deployment ?c)) 2
          = (None, 3)
      \<and> 1 < length (filter (spec_owned example_env ?live) example_pods)
      \<and> spec_podDeleteAnswer example_client (Namespace (deployment ?c))
           (filter (spec_owned example_env ?live) example_pods) 3 1
          = Some (StatusError 500 ''internal error'')
      \<and> (\<forall>j < 1. spec_podDeleteAnswer example_client (Namespace (deployment ?c))
                     (filter (spec_owned example_env ?live) example_pods) 3 j = None)"
  proof -
    have p4: "1 < length (filter (spec_owned example_env ?live) example_pods)"
      by (simp add: example_owned)
    have p5: "spec_podDeleteAnswer example_client (Namespace (deployment ?c))
           (filter (spec_owned example_env ?live) example_pods) 3 1
          = Some (StatusError 500 ''internal error'')"
      unfolding example_owned ids(1) by (rule example_podDeleteAnswers(2))
    have p6: "\<forall>j < 1. spec_podDeleteAnswer example_client (Namespace (deployment ?c))
                     (filter (spec_owned example_env ?live) example_pods) 3 j = None"
    proof (intro allI impI)
      fix j :: nat assume "j < 1"
      then have "j = 0" by simp
      then show "spec_podDeleteAnswer example_client (Namespace (deployment ?c))
                     (filter (spec_owned example_env ?live) example_pods) 3 j = None"
        unfolding example_owned ids(1) using example_podDeleteAnswers(1) by simp
    qed
    show ?thesis
      by (intro conjI) (rule refl, rule lst, rule del, rule p4, rule p5, rule p6)
  qed
  from T[THEN conjunct2, THEN conjunct2, THEN conjunct2, THEN conjunct1, rule_format,
         of ?live example_pods 2 3 1 "StatusError 500 ''internal error''", OF prem]
  have 3: "calls (snd ?D)
       = [GetDeployment ''prod'' ''web'', ListPods ''prod'' [''app'' \<mapsto> ''web''],
          DeleteDeployment ''prod'' ''web'', DeletePod ''prod'' ''web-1'',
          DeletePod ''prod'' ''web-6'']"
    and 4: "fst ?D = Some (Wrap (StatusError 500 ''internal error''))"
    by (simp_all add: ids example_owned names)
  have prem': "Inr ?live' = Inr ?live'
      \<and> Pods_List example_client (Namespace ?live') (selectorSet (deployment ?c')) 1
          = (Inr example_pods, 2)
      \<and> Deployments_Delete example_client (Namespace (deployment ?c')) (Name (deployment ?c')) 2
          = (None, 3)
      \<and> (\<forall>i < length (filter (spec_owned example_env ?live') example_pods).
            spec_podDeleteAnswer example_client (Namespace (deployment ?c'))
              (filter (spec_owned example_env ?live') example_pods) 3 i = None)"
  proof -
    have p: "\<forall>i < length (filter (spec_owned example_env ?live') example_pods).
            spec_podDeleteAnswer example_client (Namespace (deployment ?c'))
              (filter (spec_owned example_env ?live') example_pods) 3 i = None"
    proof (intro allI impI)
      fix i :: nat
      assume "i < length (filter (spec_owned example_env ?live') example_pods)"
      then have "i = 0" by (simp add: example_owned_starting)
      then show "spec_podDeleteAnswer example_client (Namespace (deployment ?c'))
              (filter (spec_owned example_env ?live') example_pods) 3 i = None"
        unfolding example_owned_starting ids(6) using example_podDeleteAnswers(3) by simp
    qed
    show ?thesis
      by (intro conjI) (rule refl, rule lst', rule del', rule p)
  qed
  from T'[THEN conjunct2, THEN conjunct2, THEN conjunct1, rule_format,
         of ?live' example_pods 2 3, OF prem']
  have 5: "calls (snd ?D')
       = [GetDeployment ''prod'' ''starting'', ListPods ''prod'' [''app'' \<mapsto> ''web''],
          DeleteDeployment ''prod'' ''starting'', DeletePod ''prod'' ''web-2'']"
    and 6: "fst ?D' = None"
    by (simp_all add: ids example_owned_starting names)
  show ?thesis
    by (intro conjI) (rule example_Client, rule 2(1), rule 2(2), rule 2(3), rule 2(4), rule 1,
          rule example_podDeleteAnswers(1), rule example_podDeleteAnswers(2), rule 3, rule 4,
          rule example_podDeleteAnswers(3), rule 5, rule 6)
qed

text \<open>
  C6: the result of \<^verbatim>\<open>Delete\<close>, the calls it issues (so the pods it deletes) and the state
  it leaves the control plane in are the same for both values of \<^verbatim>\<open>cascade\<close>; only the
  log can differ.
\<close>

theorem Delete_cascade_irrelevant:
  "fst (Delete env c ctx True s) = fst (Delete env c ctx False s)
   \<and> world (snd (Delete env c ctx True s)) = world (snd (Delete env c ctx False s))
   \<and> calls (snd (Delete env c ctx True s)) = calls (snd (Delete env c ctx False s))"
proof -
  have loop: "\<And>cl ns pods t.
     fst (deletePods_loop cl ns pods
            (logln (Infof ''deleting pods %v'') (logln (Infof ''cascade not set, returning'') t)))
       = fst (deletePods_loop cl ns pods (logln (Infof ''deleting pods %v'') t))
     \<and> world (snd (deletePods_loop cl ns pods
            (logln (Infof ''deleting pods %v'') (logln (Infof ''cascade not set, returning'') t))))
       = world (snd (deletePods_loop cl ns pods (logln (Infof ''deleting pods %v'') t)))
     \<and> calls (snd (deletePods_loop cl ns pods
            (logln (Infof ''deleting pods %v'') (logln (Infof ''cascade not set, returning'') t))))
       = calls (snd (deletePods_loop cl ns pods (logln (Infof ''deleting pods %v'') (t :: 'a state))))"
    by (rule deletePods_loop_log_irrelevant) simp_all
  show ?thesis
  proof (cases "Client c")
    case None
    then show ?thesis by (simp add: Delete_def Let_def)
  next
    case (Some cl)
    show ?thesis
      by (simp add: Delete_def Some Let_def case_prod_beta loop split: sum.splits option.splits)
  qed
qed

theorem Delete_cascade_irrelevant_witness:
  "fst (Delete example_env (example_control ''web'') example_ctx False example_state)
     = Some (Wrap (StatusError 500 ''internal error''))
   \<and> calls (snd (Delete example_env (example_control ''web'') example_ctx False example_state))
       = [GetDeployment ''prod'' ''web'', ListPods ''prod'' [''app'' \<mapsto> ''web''],
          DeleteDeployment ''prod'' ''web'', DeletePod ''prod'' ''web-1'',
          DeletePod ''prod'' ''web-6'']
   \<and> world (snd (Delete example_env (example_control ''web'') example_ctx True example_state))
       = world (snd (Delete example_env (example_control ''web'') example_ctx False example_state))
   \<and> logged (snd (Delete example_env (example_control ''web'') example_ctx True example_state))
       \<noteq> logged (snd (Delete example_env (example_control ''web'') example_ctx False example_state))"
proof -
  note T = Delete_cascade_irrelevant[of example_env "example_control ''web''" example_ctx
             example_state]
  have 1: "fst (Delete example_env (example_control ''web'') example_ctx False example_state)
     = Some (Wrap (StatusError 500 ''internal error''))"
    using T[THEN conjunct1] by (simp only: example_Delete(1)[of True])
  have 2: "calls (snd (Delete example_env (example_control ''web'') example_ctx False example_state))
       = [GetDeployment ''prod'' ''web'', ListPods ''prod'' [''app'' \<mapsto> ''web''],
          DeleteDeployment ''prod'' ''web'', DeletePod ''prod'' ''web-1'',
          DeletePod ''prod'' ''web-6'']"
    using T[THEN conjunct2, THEN conjunct2] by (simp only: example_Delete(2)[of True])
  have 3: "logged (snd (Delete example_env (example_control ''web'') example_ctx True example_state))
       \<noteq> logged (snd (Delete example_env (example_control ''web'') example_ctx False example_state))"
    by (simp add: example_Delete_logged)
  show ?thesis
    by (intro conjI) (rule 1, rule 2, rule T[THEN conjunct2, THEN conjunct1], rule 3)
qed

section \<open>Status\<close>

lemma podsRunning_loop_None:
  "podsRunning_loop pods = None \<longleftrightarrow> (\<forall>pod \<in> set pods. Phase (Pod.Status pod) = PodRunning)"
  by (induction pods) auto

lemma podsRunning_loop_Some:
  "podsRunning_loop pods \<noteq> None \<Longrightarrow>
     \<exists>pod \<in> set pods. Phase (Pod.Status pod) \<noteq> PodRunning
        \<and> podsRunning_loop pods
            = Some (CompareFailed (PodNotRunning (Name pod) (Phase (Pod.Status pod))))"
  by (induction pods) (auto split: if_splits)

lemma statusCheck_unfold:
  assumes "Client c = Some cl"
  shows "statusCheck env c s =
     (let ns = Namespace (deployment c);
          name = Name (deployment c);
          g = invoke (GetDeployment ns name) (Deployments_Get cl ns name) s
      in case fst g of
           Inl err \<Rightarrow> (Some (Wrap err), snd g)
         | Inr live \<Rightarrow>
             if UpdatedReplicas (Deployment.Status live) \<noteq> spec_expectedReplicas live
             then (Some (CompareFailed (ExpectedReplicas (spec_expectedReplicas live)
                                          (UpdatedReplicas (Deployment.Status live)))), snd g)
             else (let cp = collectPods env c live (snd g)
                   in case fst cp of
                        Inl err \<Rightarrow> (Some (Wrap err), snd cp)
                      | Inr pods \<Rightarrow> (podsRunning_loop pods, snd cp)))"
  using assms
  by (simp add: statusCheck_def spec_expectedReplicas_def Let_def case_prod_beta
        split: sum.splits)

lemma statusCheck_get_fails:
  assumes cl: "Client c = Some cl"
      and get: "Deployments_Get cl (Namespace (deployment c)) (Name (deployment c)) (world s)
                  = (Inl err, w1)"
  shows "fst (statusCheck env c s) = Some (Wrap err)"
    and "calls (snd (statusCheck env c s)) =
           calls s @ [GetDeployment (Namespace (deployment c)) (Name (deployment c))]"
  using get by (simp_all add: statusCheck_unfold[OF cl] Let_def invoke_simps)

lemma statusCheck_mismatch:
  assumes cl: "Client c = Some cl"
      and get: "Deployments_Get cl (Namespace (deployment c)) (Name (deployment c)) (world s)
                  = (Inr live, w1)"
      and ne: "UpdatedReplicas (Deployment.Status live) \<noteq> spec_expectedReplicas live"
  shows "fst (statusCheck env c s) =
           Some (CompareFailed (ExpectedReplicas (spec_expectedReplicas live)
                                  (UpdatedReplicas (Deployment.Status live))))"
  using get ne by (simp add: statusCheck_unfold[OF cl] Let_def invoke_simps)

lemma statusCheck_pods:
  assumes cl: "Client c = Some cl"
      and get: "Deployments_Get cl (Namespace (deployment c)) (Name (deployment c)) (world s)
                  = (Inr live, w1)"
      and eq: "UpdatedReplicas (Deployment.Status live) = spec_expectedReplicas live"
      and lst: "Pods_List cl (Namespace live) (selectorSet (deployment c)) w1 = (r, w2)"
  shows "fst (statusCheck env c s) =
           (case r of Inl err \<Rightarrow> Some (Wrap (Wrap err))
            | Inr podList \<Rightarrow> podsRunning_loop (filter (spec_owned env live) podList))"
proof -
  let ?g = "invoke (GetDeployment (Namespace (deployment c)) (Name (deployment c)))
              (Deployments_Get cl (Namespace (deployment c)) (Name (deployment c))) s"
  have g: "fst ?g = Inr live" "world (snd ?g) = w1"
    using get by (simp_all add: invoke_simps)
  from lst g(2) have "Pods_List cl (Namespace live) (selectorSet (deployment c))
                        (world (snd ?g)) = (r, w2)"
    by simp
  from collectPods_result(1)[OF cl this, of env]
  have cp: "fst (collectPods env c live (snd ?g)) =
          (case r of Inl err \<Rightarrow> Inl (Wrap err)
           | Inr podList \<Rightarrow> Inr (filter (spec_owned env live) podList))" .
  show ?thesis
    using g(1) eq cp by (simp add: statusCheck_unfold[OF cl] Let_def split: sum.splits)
qed

lemma example_List:
  "Pods_List example_client ns labelSet w = (Inr example_pods, Suc w)"
  by (simp add: example_client_def)

text \<open>
  C2: one attempt's check succeeds exactly when the get answers with a live resource whose
  updated-replica counter equals the expected count (its replicas field, 1 when unset), the
  list call answers, and every owned pod is in phase Running. A counter that differs and an
  owned pod that is not running both end the attempt with a compare-failed error; a failed
  get ends it with the wrapped get error before any other call.
\<close>

theorem statusCheck_succeeds_iff:
  assumes "Client c = Some cl"
      and "Deployments_Get cl (Namespace (deployment c)) (Name (deployment c)) (world s) = (g, w1)"
  shows "(fst (statusCheck env c s) = None \<longleftrightarrow>
            (\<exists>live podList w2.
               g = Inr live
               \<and> UpdatedReplicas (Deployment.Status live) = spec_expectedReplicas live
               \<and> Pods_List cl (Namespace live) (selectorSet (deployment c)) w1 = (Inr podList, w2)
               \<and> (\<forall>pod \<in> set (filter (spec_owned env live) podList).
                     Phase (Pod.Status pod) = PodRunning)))
         \<and> (\<forall>live. g = Inr live
               \<and> UpdatedReplicas (Deployment.Status live) \<noteq> spec_expectedReplicas live
               \<longrightarrow> fst (statusCheck env c s) =
                     Some (CompareFailed (ExpectedReplicas (spec_expectedReplicas live)
                                            (UpdatedReplicas (Deployment.Status live)))))
         \<and> (\<forall>live podList w2.
               g = Inr live
               \<and> UpdatedReplicas (Deployment.Status live) = spec_expectedReplicas live
               \<and> Pods_List cl (Namespace live) (selectorSet (deployment c)) w1 = (Inr podList, w2)
               \<and> (\<exists>pod \<in> set (filter (spec_owned env live) podList).
                     Phase (Pod.Status pod) \<noteq> PodRunning)
               \<longrightarrow> (\<exists>pod \<in> set (filter (spec_owned env live) podList).
                       Phase (Pod.Status pod) \<noteq> PodRunning
                       \<and> fst (statusCheck env c s) =
                           Some (CompareFailed (PodNotRunning (Name pod)
                                                  (Phase (Pod.Status pod))))))
         \<and> (\<forall>err. g = Inl err
               \<longrightarrow> fst (statusCheck env c s) = Some (Wrap err)
                   \<and> calls (snd (statusCheck env c s)) =
                       calls s @ [GetDeployment (Namespace (deployment c))
                                    (Name (deployment c))])"
proof (intro conjI)
  show "fst (statusCheck env c s) = None \<longleftrightarrow>
            (\<exists>live podList w2.
               g = Inr live
               \<and> UpdatedReplicas (Deployment.Status live) = spec_expectedReplicas live
               \<and> Pods_List cl (Namespace live) (selectorSet (deployment c)) w1 = (Inr podList, w2)
               \<and> (\<forall>pod \<in> set (filter (spec_owned env live) podList).
                     Phase (Pod.Status pod) = PodRunning))"
  proof (cases g)
    case (Inl err)
    with assms statusCheck_get_fails(1)[OF assms(1), of s err w1 env] show ?thesis by simp
  next
    case (Inr live)
    with assms(2) have get: "Deployments_Get cl (Namespace (deployment c))
                               (Name (deployment c)) (world s) = (Inr live, w1)"
      by simp
    show ?thesis
    proof (cases "UpdatedReplicas (Deployment.Status live) = spec_expectedReplicas live")
      case False
      with statusCheck_mismatch[OF assms(1) get, of env] Inr show ?thesis by simp
    next
      case True
      obtain r w2 where lst:
        "Pods_List cl (Namespace live) (selectorSet (deployment c)) w1 = (r, w2)"
        by (cases "Pods_List cl (Namespace live) (selectorSet (deployment c)) w1")
      from statusCheck_pods[OF assms(1) get True lst, of env] Inr True lst
      show ?thesis
        by (cases r) (simp_all add: podsRunning_loop_None)
    qed
  qed
next
  show "\<forall>live. g = Inr live
               \<and> UpdatedReplicas (Deployment.Status live) \<noteq> spec_expectedReplicas live
               \<longrightarrow> fst (statusCheck env c s) =
                     Some (CompareFailed (ExpectedReplicas (spec_expectedReplicas live)
                                            (UpdatedReplicas (Deployment.Status live))))"
    using assms statusCheck_mismatch[OF assms(1), of s _ w1 env] by simp
next
  show "\<forall>live podList w2.
               g = Inr live
               \<and> UpdatedReplicas (Deployment.Status live) = spec_expectedReplicas live
               \<and> Pods_List cl (Namespace live) (selectorSet (deployment c)) w1 = (Inr podList, w2)
               \<and> (\<exists>pod \<in> set (filter (spec_owned env live) podList).
                     Phase (Pod.Status pod) \<noteq> PodRunning)
               \<longrightarrow> (\<exists>pod \<in> set (filter (spec_owned env live) podList).
                       Phase (Pod.Status pod) \<noteq> PodRunning
                       \<and> fst (statusCheck env c s) =
                           Some (CompareFailed (PodNotRunning (Name pod)
                                                  (Phase (Pod.Status pod)))))"
  proof (intro allI impI)
    fix live podList w2
    assume h: "g = Inr live
               \<and> UpdatedReplicas (Deployment.Status live) = spec_expectedReplicas live
               \<and> Pods_List cl (Namespace live) (selectorSet (deployment c)) w1 = (Inr podList, w2)
               \<and> (\<exists>pod \<in> set (filter (spec_owned env live) podList).
                     Phase (Pod.Status pod) \<noteq> PodRunning)"
    with assms(2) have get: "Deployments_Get cl (Namespace (deployment c))
                               (Name (deployment c)) (world s) = (Inr live, w1)"
      by simp
    from statusCheck_pods[OF assms(1) get h[THEN conjunct2, THEN conjunct1]
           h[THEN conjunct2, THEN conjunct2, THEN conjunct1], of env]
    have r: "fst (statusCheck env c s) = podsRunning_loop (filter (spec_owned env live) podList)"
      by simp
    from h have "podsRunning_loop (filter (spec_owned env live) podList) \<noteq> None"
      by (simp add: podsRunning_loop_None)
    from podsRunning_loop_Some[OF this] r
    show "\<exists>pod \<in> set (filter (spec_owned env live) podList).
                       Phase (Pod.Status pod) \<noteq> PodRunning
                       \<and> fst (statusCheck env c s) =
                           Some (CompareFailed (PodNotRunning (Name pod)
                                                  (Phase (Pod.Status pod))))"
      by simp
  qed
next
  show "\<forall>err. g = Inl err
               \<longrightarrow> fst (statusCheck env c s) = Some (Wrap err)
                   \<and> calls (snd (statusCheck env c s)) =
                       calls s @ [GetDeployment (Namespace (deployment c))
                                    (Name (deployment c))]"
    using assms statusCheck_get_fails[OF assms(1), of s _ w1 env] by simp
qed

theorem statusCheck_succeeds_iff_witness:
  "Client (example_control ''web'') = Some example_client
   \<and> fst (Deployments_Get example_client ''prod'' ''web'' 0)
       = Inr (example_document ''Deployment'' ''prod'' ''uid-1'')
   \<and> UpdatedReplicas (Deployment.Status (example_document ''Deployment'' ''prod'' ''uid-1'')) = 3
   \<and> spec_expectedReplicas (example_document ''Deployment'' ''prod'' ''uid-1'') = 3
   \<and> fst (statusCheck example_env (example_control ''web'') example_state) = None
   \<and> fst (statusCheck example_env (example_control ''single'') example_state) = None
   \<and> fst (statusCheck example_env (example_control ''rolling'') example_state)
       = Some (CompareFailed (ExpectedReplicas 3 2))
   \<and> fst (statusCheck example_env (example_control ''starting'') example_state)
       = Some (CompareFailed (PodNotRunning ''web-2'' PodPending))
   \<and> fst (statusCheck example_env (example_control ''broken'') example_state)
       = Some (Wrap (StatusError 500 ''internal error''))
   \<and> calls (snd (statusCheck example_env (example_control ''broken'') example_state))
       = [GetDeployment ''prod'' ''broken'']"
proof -
  let ?web = "example_document ''Deployment'' ''prod'' ''uid-1''"
  let ?single = "(example_document ''Deployment'' ''prod'' ''uid-9'')
                   \<lparr>Spec := \<lparr>Replicas = None, Selector = None\<rparr>,
                    Deployment.Status := \<lparr>UpdatedReplicas = 1\<rparr>\<rparr>"
  let ?rolling = "(example_document ''Deployment'' ''prod'' ''uid-1'')
                    \<lparr>Deployment.Status := \<lparr>UpdatedReplicas = 2\<rparr>\<rparr>"
  have get: "\<And>name. Deployments_Get example_client
                 (Namespace (deployment (example_control name)))
                 (Name (deployment (example_control name))) (world example_state)
               = (fst (Deployments_Get example_client ''prod'' name 0), 1)"
    by (simp add: example_control_def example_client_def example_state_def example_document_def)
  have g: "fst (Deployments_Get example_client ''prod'' ''web'' 0) = Inr ?web"
    "fst (Deployments_Get example_client ''prod'' ''single'' 0) = Inr ?single"
    "fst (Deployments_Get example_client ''prod'' ''rolling'' 0) = Inr ?rolling"
    "fst (Deployments_Get example_client ''prod'' ''broken'' 0)
       = Inl (StatusError 500 ''internal error'')"
    by (simp_all add: example_client_def)
  have counts: "UpdatedReplicas (Deployment.Status ?web) = 3" "spec_expectedReplicas ?web = 3"
    "UpdatedReplicas (Deployment.Status ?single) = 1" "spec_expectedReplicas ?single = 1"
    "UpdatedReplicas (Deployment.Status ?rolling) = 2" "spec_expectedReplicas ?rolling = 3"
    by (simp_all add: example_document_def spec_expectedReplicas_def)
  have running: "\<forall>pod \<in> set (filter (spec_owned example_env ?web) example_pods).
                   Phase (Pod.Status pod) = PodRunning"
    by (simp add: example_owned) (simp add: example_pod_def)
  have none: "\<forall>pod \<in> set (filter (spec_owned example_env ?single) example_pods).
                   Phase (Pod.Status pod) = PodRunning"
    by (simp add: example_defs spec_owned_def ParseSerializedReference_def)
  note Tweb = statusCheck_succeeds_iff[OF example_Client get[of "''web''"], of example_env]
  note Tsingle = statusCheck_succeeds_iff[OF example_Client get[of "''single''"], of example_env]
  note Trolling = statusCheck_succeeds_iff[OF example_Client get[of "''rolling''"], of example_env]
  note Tbroken = statusCheck_succeeds_iff[OF example_Client get[of "''broken''"], of example_env]
  have 1: "fst (statusCheck example_env (example_control ''web'') example_state) = None"
    by (rule Tweb[THEN conjunct1, THEN iffD2],
        intro exI[of _ ?web] exI[of _ example_pods] exI[of _ 2] conjI)
       (simp_all add: g counts running example_List)
  have 2: "fst (statusCheck example_env (example_control ''single'') example_state) = None"
    by (rule Tsingle[THEN conjunct1, THEN iffD2],
        intro exI[of _ ?single] exI[of _ example_pods] exI[of _ 2] conjI)
       (simp_all add: g counts none example_List)
  have 3: "fst (statusCheck example_env (example_control ''rolling'') example_state)
       = Some (CompareFailed (ExpectedReplicas 3 2))"
    using Trolling[THEN conjunct2, THEN conjunct1, rule_format, of ?rolling]
    by (simp add: g counts)
  have 4: "fst (statusCheck example_env (example_control ''starting'') example_state)
       = Some (CompareFailed (PodNotRunning ''web-2'' PodPending))"
    by (simp add: statusCheck_def collectPods_def invoke_def logln_def Let_def selectorSet_def
          ParseSerializedReference_def example_defs)
  have 5: "fst (statusCheck example_env (example_control ''broken'') example_state)
       = Some (Wrap (StatusError 500 ''internal error''))"
    "calls (snd (statusCheck example_env (example_control ''broken'') example_state))
       = [GetDeployment ''prod'' ''broken'']"
    using Tbroken[THEN conjunct2, THEN conjunct2, THEN conjunct2, rule_format,
            of "StatusError 500 ''internal error''"]
    by (simp_all add: g) (simp add: example_control_def example_document_def example_state_def)
  show ?thesis
    by (intro conjI) (rule example_Client, rule g(1), rule counts(1), rule counts(2), rule 1,
          rule 2, rule 3, rule 4, rule 5(1), rule 5(2))
qed

lemma example_statusCheck_rolling:
  "statusCheck example_env (example_control ''rolling'') s
     = (Some (CompareFailed (ExpectedReplicas 3 2)),
        s\<lparr>world := Suc (world s), calls := calls s @ [GetDeployment ''prod'' ''rolling'']\<rparr>)"
  by (simp add: statusCheck_def invoke_def Let_def example_control_def example_client_def
        example_document_def)

lemma example_Status_rolling:
  "fst (Status example_env (example_control ''rolling'') example_ctx 3 1000 example_state)
     = Some (CompareFailed (ExpectedReplicas 3 2))"
  "calls (snd (Status example_env (example_control ''rolling'') example_ctx 3 1000 example_state))
     = [GetDeployment ''prod'' ''rolling'', GetDeployment ''prod'' ''rolling'',
        GetDeployment ''prod'' ''rolling'']"
  by (simp_all add: Status_def retry_def eval_nat_numeral example_statusCheck_rolling Let_def
        logln_def example_ctx_def example_state_def)

text \<open>
  C8: \<^verbatim>\<open>Status\<close> called with a zero attempt count, a zero period or both is the same
  computation (same result, same calls, same final state) as \<^verbatim>\<open>Status\<close> called with
  \<^verbatim>\<open>DefaultRetryAttempts\<close> and \<^verbatim>\<open>DefaultRetryPeriod\<close> in place of the zero arguments.
\<close>

theorem Status_zero_means_default:
  "Status env c ctx 0 0 s
     = Status env c ctx (DefaultRetryAttempts env) (DefaultRetryPeriod env) s
   \<and> Status env c ctx 0 retryPeriod s
     = Status env c ctx (DefaultRetryAttempts env) retryPeriod s
   \<and> Status env c ctx retryAttempts 0 s
     = Status env c ctx retryAttempts (DefaultRetryPeriod env) s"
  by (simp add: Status_def)

theorem Status_zero_means_default_witness:
  "DefaultRetryAttempts example_env = 3 \<and> DefaultRetryPeriod example_env = 1000
   \<and> Status example_env (example_control ''rolling'') example_ctx 0 0 example_state
       = Status example_env (example_control ''rolling'') example_ctx 3 1000 example_state
   \<and> fst (Status example_env (example_control ''rolling'') example_ctx 0 0 example_state)
       = Some (CompareFailed (ExpectedReplicas 3 2))
   \<and> calls (snd (Status example_env (example_control ''rolling'') example_ctx 0 0 example_state))
       = [GetDeployment ''prod'' ''rolling'', GetDeployment ''prod'' ''rolling'',
          GetDeployment ''prod'' ''rolling'']"
proof -
  have d: "DefaultRetryAttempts example_env = 3" "DefaultRetryPeriod example_env = 1000"
    by (simp_all add: example_env_def)
  have e: "Status example_env (example_control ''rolling'') example_ctx 0 0 example_state
       = Status example_env (example_control ''rolling'') example_ctx 3 1000 example_state"
    using Status_zero_means_default[of example_env "example_control ''rolling''" example_ctx
            example_state, THEN conjunct1]
    by (simp only: d)
  show ?thesis
    unfolding e
    by (intro conjI) (rule d(1), rule d(2), rule refl, rule example_Status_rolling(1),
          rule example_Status_rolling(2))
qed

section \<open>Construction\<close>

text \<open>
  C10: a controller that \<^verbatim>\<open>NewDeploymentControl\<close> returns holds a document whose kind is
  the Deployment kind constant, whatever kind the document had: the document is the
  pre-parsed one when the configuration supplies it, and the one decoded from the reader
  otherwise, with the kind overwritten in both cases.
\<close>

theorem NewDeploymentControl_sets_kind:
  assumes "NewDeploymentControl env config = Inr c"
  shows "Kind (deployment c) = KindDeployment env
         \<and> ((\<exists>rc. Deployment config = Some rc
                  \<and> deployment c = rc\<lparr>Kind := KindDeployment env\<rparr>)
              \<or> (\<exists>bytes rc. Deployment config = None \<and> Reader config = Some bytes
                  \<and> Decode_Deployment env bytes = Inr rc
                  \<and> deployment c = rc\<lparr>Kind := KindDeployment env\<rparr>))"
  using assms
  by (auto simp: NewDeploymentControl_def ParseDeployment_def Let_def
        DeploymentConfig.extend_def DeploymentControl.fields_def
        split: option.splits sum.splits)

theorem NewDeploymentControl_sets_kind_witness:
  "Kind (example_document ''ReplicaSet'' ''prod'' ''uid-0'') = ''ReplicaSet''
   \<and> KindDeployment example_env = ''Deployment''
   \<and> (\<exists>c. NewDeploymentControl example_env
              \<lparr>Reader = None,
               Deployment = Some (example_document ''ReplicaSet'' ''prod'' ''uid-0''),
               Client = Some example_client\<rparr> = Inr c
          \<and> Kind (deployment c) = ''Deployment'')
   \<and> Decode_Deployment example_env ''kind: ReplicaSet''
       = Inr (example_document ''ReplicaSet'' ''prod'' '''')
   \<and> (\<exists>c. NewDeploymentControl example_env
              \<lparr>Reader = Some ''kind: ReplicaSet'', Deployment = None,
               Client = Some example_client\<rparr> = Inr c
          \<and> Kind (deployment c) = ''Deployment'')"
proof -
  let ?parsed = "\<lparr>Reader = None,
               Deployment = Some (example_document ''ReplicaSet'' ''prod'' ''uid-0''),
               Client = Some example_client\<rparr>"
  let ?raw = "\<lparr>Reader = Some ''kind: ReplicaSet'', Deployment = None,
               Client = Some example_client\<rparr>"
  have k: "KindDeployment example_env = ''Deployment''"
    and dec: "Decode_Deployment example_env ''kind: ReplicaSet''
                = Inr (example_document ''ReplicaSet'' ''prod'' '''')"
    by (simp_all add: example_env_def example_Decode_Deployment_def)
  obtain c1 where c1: "NewDeploymentControl example_env ?parsed = Inr c1"
    by (simp add: NewDeploymentControl_def CheckAndSetDefaults_def Let_def)
  obtain c2 where c2: "NewDeploymentControl example_env ?raw = Inr c2"
    by (simp add: NewDeploymentControl_def CheckAndSetDefaults_def ParseDeployment_def dec Let_def)
  have 1: "\<exists>c. NewDeploymentControl example_env ?parsed = Inr c
             \<and> Kind (deployment c) = ''Deployment''"
    using c1 NewDeploymentControl_sets_kind[OF c1, THEN conjunct1] k
    by (intro exI[of _ c1]) simp
  have 2: "\<exists>c. NewDeploymentControl example_env ?raw = Inr c
             \<and> Kind (deployment c) = ''Deployment''"
    using c2 NewDeploymentControl_sets_kind[OF c2, THEN conjunct1] k
    by (intro exI[of _ c2]) simp
  have 3: "Kind (example_document ''ReplicaSet'' ''prod'' ''uid-0'') = ''ReplicaSet''"
    by (simp add: example_document_def)
  show ?thesis
    by (intro conjI) (rule 3, rule k, rule 1, rule dec, rule 2)
qed

end
